theory Spec2Isabelle
  imports Main "HOL-Library.AList"
begin

section \<open>Python values and helpers shared by the model\<close>

text \<open>
  Python strings are modelled as \<open>string\<close> (a list of characters); \<open>len\<close> is
  \<open>length\<close>.  Python integers are \<open>int\<close>.
\<close>

definition py_slice_to :: "'a list \<Rightarrow> int \<Rightarrow> 'a list" where
  \<comment> \<open>\<open>xs[:k]\<close>: a negative bound counts from the end.\<close>
  "py_slice_to xs k =
     (if 0 \<le> k then take (nat k) xs else take (nat (int (length xs) + k)) xs)"

fun rfind_acc :: "'a \<Rightarrow> 'a list \<Rightarrow> int \<Rightarrow> int \<Rightarrow> int" where
  "rfind_acc c [] i best = best"
| "rfind_acc c (x # xs) i best = rfind_acc c xs (i + 1) (if x = c then i else best)"

definition py_rfind :: "'a list \<Rightarrow> 'a \<Rightarrow> int" where
  \<comment> \<open>\<open>xs.rfind(c)\<close> for a one-character needle: the highest index holding \<open>c\<close>, or \<open>-1\<close>.\<close>
  "py_rfind xs c = rfind_acc c xs 0 (- 1)"

section \<open>\<open>app/utils/helpers.py\<close>: \<open>truncate_text\<close>\<close>

text \<open>
  The source compares \<open>last_space > max_length * 0.8\<close> in floating point.  For an integer
  \<open>max_length\<close> below \<open>2^53\<close> the product is the correctly rounded value of
  \<open>4 * max_length / 5\<close> (exact when that is an integer), so the comparison with the integer
  \<open>last_space\<close> is the integer comparison \<open>5 * last_space > 4 * max_length\<close>.
\<close>

definition truncate_text :: "string \<Rightarrow> int \<Rightarrow> string" where
  "truncate_text text max_length =
     (if text = [] \<or> int (length text) \<le> max_length then text
      else
        let truncated = py_slice_to text max_length;
            last_space = py_rfind truncated CHR '' '';
            truncated = (if 5 * last_space > 4 * max_length
                         then py_slice_to truncated last_space else truncated)
        in truncated @ ''...'')"

datatype pyval =
    PNone | PBool bool | PInt int | PStr string | PList "pyval list"
  | PDict "(string \<times> pyval) list"

text \<open>
  A dictionary with string keys is an association list in insertion order: \<open>map_of\<close> reads a
  key and \<open>AList.update\<close> writes one (in place when the key is present, at the end
  otherwise, as Python does).  JSON numbers with a fraction are not represented.
\<close>

type_synonym pydict = "(string \<times> pyval) list"

fun truthy :: "pyval \<Rightarrow> bool" where
  "truthy PNone = False"
| "truthy (PBool b) = b"
| "truthy (PInt i) = (i \<noteq> 0)"
| "truthy (PStr s) = (s \<noteq> [])"
| "truthy (PList xs) = (xs \<noteq> [])"
| "truthy (PDict d) = (d \<noteq> [])"

definition dget :: "pydict \<Rightarrow> string \<Rightarrow> pyval \<Rightarrow> pyval" where
  \<comment> \<open>\<open>d.get(k, default)\<close> on a dictionary\<close>
  "dget d k dflt = (case map_of d k of Some v \<Rightarrow> v | None \<Rightarrow> dflt)"

section \<open>Parsed documents\<close>

text \<open>
  A parsed document (\<open>BeautifulSoup\<close>) is a tree of tags and strings; the document itself is
  a tag.  A string is a plain \<open>NavigableString\<close> or an object of one of its subclasses: a
  comment, the text of a \<open>script\<close>, \<open>style\<close> or \<open>template\<close> tag, and so on.  \<open>descendants\<close>
  lists the nodes below a tag in document order, which is the order in which \<open>find\<close> and
  \<open>find_all\<close> search.
\<close>

datatype string_class =
    Comment | CData | Script | Stylesheet | TemplateString | RubyTextString
  | RubyParenthesisString | Declaration | Doctype | ProcessingInstruction

datatype node =
    Tag string "(string \<times> string) list" "node list"
  | NavigableString string
  | SubclassString string_class string

fun descendants :: "node \<Rightarrow> node list" where
  "descendants (NavigableString s) = []"
| "descendants (SubclassString cls s) = []"
| "descendants (Tag name attrs children) = concat (map (\<lambda>c. c # descendants c) children)"

definition string_containers :: "(string \<times> string_class) list" where
  \<comment> \<open>the tags whose text the parser stores as strings of a class of their own\<close>
  "string_containers =
     [(''rt'', RubyTextString), (''rp'', RubyParenthesisString), (''style'', Stylesheet),
      (''script'', Script), (''template'', TemplateString)]"

fun interesting_string :: "string \<Rightarrow> node \<Rightarrow> string option" where
  \<comment> \<open>The text of a string that \<open>get_text\<close>, called on a tag of the given name, collects: the
      strings of the class of a string container, and for every other tag the plain strings
      and the \<open>CData\<close> sections.\<close>
  "interesting_string name (Tag name' attrs children) = None"
| "interesting_string name (NavigableString s) =
     (case map_of string_containers name of None \<Rightarrow> Some s | Some cls \<Rightarrow> None)"
| "interesting_string name (SubclassString cls s) =
     (case map_of string_containers name of
        None \<Rightarrow> if cls = CData then Some s else None
      | Some cls' \<Rightarrow> if cls = cls' then Some s else None)"

fun get_text :: "node \<Rightarrow> string" where
  "get_text (NavigableString s) = s"
| "get_text (SubclassString cls s) = (if cls = CData then s else [])"
| "get_text (Tag name attrs children) =
     concat (List.map_filter (interesting_string name) (descendants (Tag name attrs children)))"

fun tag_named :: "string list \<Rightarrow> node \<Rightarrow> bool" where
  "tag_named names (NavigableString s) = False"
| "tag_named names (SubclassString cls s) = False"
| "tag_named names (Tag name attrs children) = (name \<in> set names)"

fun tag_get :: "node \<Rightarrow> string \<Rightarrow> string option" where
  \<comment> \<open>\<open>tag.get(key)\<close>\<close>
  "tag_get (NavigableString s) key = None"
| "tag_get (SubclassString cls s) key = None"
| "tag_get (Tag name attrs children) key = map_of attrs key"

definition soup_find :: "node \<Rightarrow> (node \<Rightarrow> bool) \<Rightarrow> node option" where
  "soup_find soup P = List.find P (descendants soup)"

definition soup_find_all :: "node \<Rightarrow> (node \<Rightarrow> bool) \<Rightarrow> node list" where
  "soup_find_all soup P = filter P (descendants soup)"

section \<open>Exceptions, responses and the outside world\<close>

text \<open>
  A raised exception is a value: its class and its message (\<open>str(e)\<close>).  A function that
  may raise returns \<open>exn + 'a\<close>, with \<open>Inl\<close> for the exception.
\<close>

datatype exn_class =
    RequestException | HTTPError | NetworkError | ValueError | TypeError
  | AttributeError | KeyError | IndexError | JSONDecodeError | IntegrityError
  | PendingRollbackError | OtherException

datatype exn = Exn exn_class string

fun exn_str :: "exn \<Rightarrow> string" where
  "exn_str (Exn c m) = m"

fun is_request_exception :: "exn \<Rightarrow> bool" where
  \<comment> \<open>\<open>isinstance(e, requests.RequestException)\<close>; \<open>HTTPError\<close> is a subclass, the
      repository's \<open>NetworkError\<close> is not.\<close>
  "is_request_exception (Exn c m) = (c = RequestException \<or> c = HTTPError)"

definition digit_char :: "nat \<Rightarrow> char" where
  "digit_char d = ''0123456789'' ! d"

function str_nat :: "nat \<Rightarrow> string" where
  "str_nat n = (if n < 10 then [digit_char n] else str_nat (n div 10) @ [digit_char (n mod 10)])"
  by pat_completeness auto
termination
  by (relation "measure id") auto

definition str_int :: "int \<Rightarrow> string" where
  \<comment> \<open>\<open>str(i)\<close> for an integer.\<close>
  "str_int i = (if i < 0 then CHR ''-'' # str_nat (nat (- i)) else str_nat (nat i))"

record response =
  status_code :: int
  reason :: string
  url :: string
  headers :: "(string \<times> string) list"
  resp_text :: string

text \<open>
  The environment holds what the code reaches outside the repository.  \<open>http n u\<close> is
  the outcome of the \<open>n\<close>-th call of \<open>session.get\<close> of the run (counted from the start of
  the run), made for URL \<open>u\<close>: an exception, or a response.  \<open>py_int\<close> is the built-in
  \<open>int\<close> applied to a string, \<open>json_loads\<close> is \<open>json.loads\<close> (raising \<open>JSONDecodeError\<close> on
  text that is not JSON), \<open>urljoin\<close> is \<open>urllib.parse.urljoin\<close>, \<open>charref\<close> is the
  character-reference substitution of \<open>html.unescape\<close>, and \<open>py_format\<close> is the text an
  f-string puts for a list or a dictionary.  \<open>findall_email\<close> and \<open>findall_phone\<close> are
  \<open>re.findall\<close> with the two patterns of \<open>helpers.py\<close>: the matches in the order of the
  text, from left to right.  \<open>list_of_set xs\<close> is \<open>list(set(xs))\<close>: Python fixes its elements,
  those of \<open>xs\<close> without repetition, and leaves their order open.
  \<open>check_bracketed_host\<close> and \<open>checknetloc\<close> are the two checks of that name in
  \<open>urllib.parse\<close>: \<open>Some e\<close> when the check raises \<open>e\<close>.  \<open>parse_html\<close> is
  \<open>BeautifulSoup(text, 'html.parser')\<close>.  The four fields \<open>pass_\<dots>\<close> stand for the extraction
  passes \<open>extract_social_handles\<close>, \<open>extract_important_links\<close>, \<open>_extract_faqs\<close> and
  \<open>_extract_hero_products\<close>, which no property below looks into.  \<open>llm_analysis d\<close> is what
  the text-generation service makes \<open>process_brand_context\<close> store under \<open>llm_analysis\<close>
  (\<open>None\<close> without an API key), \<open>generate_competitive_report\<close> is the function of that name
  (it computes with floats and catches every exception), and \<open>utcnow\<close> is the reading of the
  clock, taken as one value.  \<open>db_error_text c\<close> is the text of the \<open>IntegrityError\<close> that
  the database driver raises for the violated constraint \<open>c\<close>, and \<open>pending_rollback_text t\<close>
  the text of the \<open>PendingRollbackError\<close> raised after a failed flush whose exception had the
  text \<open>t\<close>.
\<close>

record env =
  http :: "nat \<Rightarrow> string \<Rightarrow> exn + response"
  py_int :: "string \<Rightarrow> exn + int"
  json_loads :: "string \<Rightarrow> exn + pyval"
  urljoin :: "string \<Rightarrow> string \<Rightarrow> exn + string"
  charref :: "string \<Rightarrow> string"
  py_format :: "pyval \<Rightarrow> string"
  findall_email :: "string \<Rightarrow> string list"
  findall_phone :: "string \<Rightarrow> string list list"
  list_of_set :: "string list \<Rightarrow> string list"
  check_bracketed_host :: "string \<Rightarrow> exn option"
  checknetloc :: "string \<Rightarrow> exn option"
  parse_html :: "string \<Rightarrow> exn + node"
  pass_social_handles :: "string \<Rightarrow> exn + pyval"
  pass_important_links :: "string \<Rightarrow> string \<Rightarrow> exn + pyval"
  pass_faqs :: "node \<Rightarrow> string \<Rightarrow> exn + pyval"
  pass_hero_products :: "node \<Rightarrow> string \<Rightarrow> exn + pyval"
  llm_analysis :: "pydict \<Rightarrow> pyval option"
  generate_competitive_report :: "pydict \<Rightarrow> pyval list \<Rightarrow> pyval"
  utcnow :: pyval
  db_error_text :: "string \<Rightarrow> string"
  pending_rollback_text :: "string \<Rightarrow> string"

datatype event = Request string | Sleep int

fun is_Request :: "event \<Rightarrow> bool" where
  "is_Request (Request u) = True"
| "is_Request (Sleep t) = False"

definition nreq :: "event list \<Rightarrow> nat" where
  "nreq evs = length (filter is_Request evs)"


section \<open>\<open>config/config.py\<close>\<close>

definition REQUEST_TIMEOUT :: int where "REQUEST_TIMEOUT = 30"
definition MAX_RETRIES :: nat where "MAX_RETRIES = 3"
definition DELAY_BETWEEN_REQUESTS :: int where "DELAY_BETWEEN_REQUESTS = 1"

section \<open>\<open>ShopifyScraperService._fetch_page\<close>\<close>

definition raise_for_status :: "response \<Rightarrow> exn + unit" where
  \<comment> \<open>\<open>requests.Response.raise_for_status\<close>: every 4xx and 5xx status raises \<open>HTTPError\<close>.\<close>
  "raise_for_status r =
     (if 400 \<le> status_code r \<and> status_code r < 500 then
        Inl (Exn HTTPError (str_int (status_code r) @ '' Client Error: '' @ reason r
                              @ '' for url: '' @ url r))
      else if 500 \<le> status_code r \<and> status_code r < 600 then
        Inl (Exn HTTPError (str_int (status_code r) @ '' Server Error: '' @ reason r
                              @ '' for url: '' @ url r))
      else Inr ())"

definition get_checked :: "env \<Rightarrow> nat \<Rightarrow> string \<Rightarrow> exn + response" where
  \<comment> \<open>\<open>response = self.session.get(url, timeout=timeout); response.raise_for_status()\<close>\<close>
  "get_checked E n u =
     (case http E n u of
        Inl e \<Rightarrow> Inl e
      | Inr r \<Rightarrow> (case raise_for_status r of Inl e \<Rightarrow> Inl e | Inr _ \<Rightarrow> Inr r))"

text \<open>
  A character stands for the code point of its number, below 256.  The capital letters
  among these are \<open>A\<close> to \<open>Z\<close> and the code points 192 to 222 without the multiplication
  sign 215; the lower-case letter of each is 32 above it.
\<close>

definition is_upper :: "char \<Rightarrow> bool" where
  "is_upper c =
     ((65 \<le> (of_char c :: nat) \<and> (of_char c :: nat) \<le> 90) \<or>
      (192 \<le> (of_char c :: nat) \<and> (of_char c :: nat) \<le> 222 \<and> (of_char c :: nat) \<noteq> 215))"

definition lower_char :: "char \<Rightarrow> char" where
  "lower_char c = (if is_upper c then char_of (of_char c + (32 :: nat)) else c)"

definition lower :: "string \<Rightarrow> string" where
  \<comment> \<open>\<open>s.lower()\<close>\<close>
  "lower s = map lower_char s"

definition retry_after :: "env \<Rightarrow> response \<Rightarrow> exn + int" where
  \<comment> \<open>\<open>int(response.headers.get('Retry-After', 60))\<close>; header names compare without case.\<close>
  "retry_after E r =
     (case map_of (map (\<lambda>(k, v). (lower k, v)) (headers r)) (lower ''Retry-After'') of
        None \<Rightarrow> Inr 60
      | Some v \<Rightarrow> py_int E v)"

definition network_error :: "string \<Rightarrow> exn \<Rightarrow> exn" where
  \<comment> \<open>\<open>NetworkError(f"Failed to fetch {url}: {e}")\<close>\<close>
  "network_error u e = Exn NetworkError (''Failed to fetch '' @ u @ '': '' @ exn_str e)"

text \<open>
  The loop \<open>for attempt in range(Config.MAX_RETRIES)\<close>, over the list of attempt numbers
  still to run.  \<open>n\<close> counts the requests made before.  The result is the returned body
  (\<open>None\<close> when the loop runs out and the function falls off its end) or the exception that
  leaves the inner \<open>try\<close>, with the requests and sleeps in the order they happen.
\<close>

fun fetch_attempts :: "env \<Rightarrow> string \<Rightarrow> nat list \<Rightarrow> nat \<Rightarrow> (exn + string option) \<times> event list" where
  "fetch_attempts E u [] n = (Inr None, [])"
| "fetch_attempts E u (attempt # rest) n =
     (case get_checked E n u of
        Inr r \<Rightarrow>
          if status_code r = 429 then
            (case retry_after E r of
               Inl e \<Rightarrow>
                 if is_request_exception e then
                   if attempt = MAX_RETRIES - 1 then (Inl (network_error u e), [Request u])
                   else
                     (case fetch_attempts E u rest (Suc n) of
                        (res, evs) \<Rightarrow>
                          (res, Request u # Sleep (DELAY_BETWEEN_REQUESTS * 2 ^ attempt) # evs))
                 else (Inl e, [Request u])
             | Inr wait_time \<Rightarrow>
                 if wait_time < 0 then
                   (Inl (Exn ValueError ''sleep length must be non-negative''), [Request u])
                 else
                   (case fetch_attempts E u rest (Suc n) of
                      (res, evs) \<Rightarrow> (res, Request u # Sleep wait_time # evs)))
          else (Inr (Some (resp_text r)), [Request u])
      | Inl e \<Rightarrow>
          if is_request_exception e then
            if attempt = MAX_RETRIES - 1 then (Inl (network_error u e), [Request u])
            else
              (case fetch_attempts E u rest (Suc n) of
                 (res, evs) \<Rightarrow>
                   (res, Request u # Sleep (DELAY_BETWEEN_REQUESTS * 2 ^ attempt) # evs))
          else (Inl e, [Request u]))"

definition fetch_page :: "env \<Rightarrow> string \<Rightarrow> nat \<Rightarrow> (exn + string option) \<times> event list" where
  \<comment> \<open>The outer \<open>try\<close>: a \<open>RequestException\<close> leaving the loop is wrapped as well.\<close>
  "fetch_page E u n =
     (case fetch_attempts E u [0..<MAX_RETRIES] n of
        (Inl e, evs) \<Rightarrow> if is_request_exception e then (Inl (network_error u e), evs) else (Inl e, evs)
      | (Inr body, evs) \<Rightarrow> (Inr body, evs))"


section \<open>\<open>app/utils/helpers.py\<close>: \<open>clean_text\<close>\<close>

fun exn_bind :: "exn + 'a \<Rightarrow> ('a \<Rightarrow> exn + 'b) \<Rightarrow> exn + 'b" where
  "exn_bind (Inl e) f = Inl e"
| "exn_bind (Inr x) f = f x"

definition is_space :: "char \<Rightarrow> bool" where
  \<comment> \<open>The characters below 256 that \<open>\s\<close> matches and \<open>strip()\<close> removes.\<close>
  "is_space c = ((of_char c :: nat) \<in> {9, 10, 11, 12, 13, 28, 29, 30, 31, 32, 133, 160})"

fun collapse_ws :: "bool \<Rightarrow> string \<Rightarrow> string" where
  \<comment> \<open>\<open>re.sub(r'\s+', ' ', text)\<close>; the flag says that the previous character was white space.\<close>
  "collapse_ws prev [] = []"
| "collapse_ws prev (c # cs) =
     (if is_space c then (if prev then collapse_ws True cs else CHR '' '' # collapse_ws True cs)
      else c # collapse_ws False cs)"

definition strip :: "string \<Rightarrow> string" where
  "strip s = rev (dropWhile is_space (rev (dropWhile is_space s)))"

definition html_unescape :: "env \<Rightarrow> string \<Rightarrow> string" where
  \<comment> \<open>\<open>html.unescape\<close>: text without an ampersand is returned as it is.\<close>
  "html_unescape E s = (if CHR ''&'' \<in> set s then charref E s else s)"

definition clean_text :: "env \<Rightarrow> string \<Rightarrow> string" where
  "clean_text E text =
     (if text = [] then [] else strip (collapse_ws False (html_unescape E text)))"

definition clean_text_opt :: "env \<Rightarrow> string option \<Rightarrow> string" where
  \<comment> \<open>\<open>clean_text\<close> on a string or \<open>None\<close>\<close>
  "clean_text_opt E text = (case text of None \<Rightarrow> [] | Some t \<Rightarrow> clean_text E t)"

definition clean_text_val :: "env \<Rightarrow> pyval \<Rightarrow> exn + string" where
  \<comment> \<open>\<open>clean_text\<close> on a value of any type: a false value gives \<open>""\<close>, a true value that is
      not a string makes \<open>html.unescape\<close> or \<open>re.sub\<close> raise \<open>TypeError\<close>.\<close>
  "clean_text_val E v =
     (if \<not> truthy v then Inr []
      else case v of
             PStr s \<Rightarrow> Inr (clean_text E s)
           | _ \<Rightarrow> Inl (Exn TypeError ''expected string or bytes-like object''))"

section \<open>\<open>ShopifyScraperService._get_product_catalog\<close>\<close>

fun split_acc :: "char \<Rightarrow> string \<Rightarrow> string \<Rightarrow> string list" where
  "split_acc sep [] cur = [cur]"
| "split_acc sep (c # cs) cur =
     (if c = sep then cur # split_acc sep cs [] else split_acc sep cs (cur @ [c]))"

definition py_split :: "string \<Rightarrow> char \<Rightarrow> string list" where
  \<comment> \<open>\<open>s.split(sep)\<close> for a one-character separator\<close>
  "py_split s sep = split_acc sep s []"

definition py_get :: "pyval \<Rightarrow> string \<Rightarrow> pyval \<Rightarrow> exn + pyval" where
  \<comment> \<open>\<open>v.get(k, default)\<close>: only a dictionary has the method.\<close>
  "py_get v k dflt =
     (case v of
        PDict d \<Rightarrow> Inr (dget d k dflt)
      | _ \<Rightarrow> Inl (Exn AttributeError ''object has no attribute get''))"

definition first_item :: "pyval \<Rightarrow> exn + pyval" where
  \<comment> \<open>\<open>v[0]\<close>\<close>
  "first_item v =
     (case v of
        PList (x # xs) \<Rightarrow> Inr x
      | PList [] \<Rightarrow> Inl (Exn IndexError ''list index out of range'')
      | PStr (c # cs) \<Rightarrow> Inr (PStr [c])
      | PStr [] \<Rightarrow> Inl (Exn IndexError ''string index out of range'')
      | PDict d \<Rightarrow> Inl (Exn KeyError ''0'')
      | _ \<Rightarrow> Inl (Exn TypeError ''object is not subscriptable''))"

definition py_iter :: "pyval \<Rightarrow> exn + pyval list" where
  \<comment> \<open>The items a \<open>for\<close> loop over \<open>v\<close> visits.\<close>
  "py_iter v =
     (case v of
        PList xs \<Rightarrow> Inr xs
      | PStr s \<Rightarrow> Inr (map (\<lambda>c. PStr [c]) s)
      | PDict d \<Rightarrow> Inr (map (\<lambda>kv. PStr (fst kv)) d)
      | _ \<Rightarrow> Inl (Exn TypeError ''object is not iterable''))"

definition format_value :: "env \<Rightarrow> pyval \<Rightarrow> string" where
  \<comment> \<open>The text of \<open>{v}\<close> in an f-string.\<close>
  "format_value E v =
     (case v of
        PStr s \<Rightarrow> s
      | PNone \<Rightarrow> ''None''
      | PBool b \<Rightarrow> (if b then ''True'' else ''False'')
      | PInt i \<Rightarrow> str_int i
      | _ \<Rightarrow> py_format E v)"

definition tags_of :: "pydict \<Rightarrow> pyval" where
  "tags_of p =
     (case map_of p ''tags'' of
        Some (PStr s) \<Rightarrow> if s \<noteq> [] then PList (map PStr (py_split s CHR '','')) else PList []
      | Some (PList xs) \<Rightarrow> PList xs
      | _ \<Rightarrow> PList [])"

definition product_data_of :: "env \<Rightarrow> string \<Rightarrow> pyval \<Rightarrow> exn + pydict" where
  \<comment> \<open>The body of \<open>for product in page_products\<close> up to \<open>products.append\<close>.\<close>
  "product_data_of E website_url product =
     (case product of
        PDict p \<Rightarrow>
          exn_bind (clean_text_val E (dget p ''body_html'' (PStr []))) (\<lambda>description.
          exn_bind (urljoin E website_url
                      (''/products/'' @ format_value E (dget p ''handle'' PNone))) (\<lambda>product_url.
          let variants = dget p ''variants'' (PList []);
              images = dget p ''images'' (PList []);
              product_data =
                [(''shopify_id'', dget p ''id'' PNone),
                 (''title'', dget p ''title'' PNone),
                 (''handle'', dget p ''handle'' PNone),
                 (''description'', PStr description),
                 (''vendor'', dget p ''vendor'' PNone),
                 (''product_type'', dget p ''product_type'' PNone),
                 (''tags'', tags_of p),
                 (''product_url'', PStr product_url),
                 (''created_at'', dget p ''created_at'' PNone),
                 (''updated_at'', dget p ''updated_at'' PNone),
                 (''available'', dget p ''available'' (PBool True)),
                 (''variants'', variants),
                 (''images'', images),
                 (''options'', dget p ''options'' (PList []))]
          in
          exn_bind
            (if truthy variants then
               exn_bind (first_item variants) (\<lambda>first_variant.
               exn_bind (py_get first_variant ''price'' PNone) (\<lambda>price.
               exn_bind (py_get first_variant ''compare_at_price'' PNone) (\<lambda>compare_at_price.
               Inr (product_data @ [(''price'', price), (''compare_at_price'', compare_at_price)]))))
             else Inr product_data) (\<lambda>product_data.
          if truthy images then
            exn_bind (first_item images) (\<lambda>first_image.
            exn_bind (py_get first_image ''src'' PNone) (\<lambda>src.
            Inr (product_data @ [(''featured_image'', src)])))
          else Inr product_data)))
      | _ \<Rightarrow> Inl (Exn AttributeError ''object has no attribute get''))"

fun add_products :: "env \<Rightarrow> string \<Rightarrow> pyval list \<Rightarrow> pyval list \<Rightarrow> exn option \<times> pyval list" where
  \<comment> \<open>The \<open>for\<close> loop over one page: products appended before an exception stay appended.\<close>
  "add_products E website_url [] products = (None, products)"
| "add_products E website_url (product # rest) products =
     (case product_data_of E website_url product of
        Inl e \<Rightarrow> (Some e, products)
      | Inr product_data \<Rightarrow> add_products E website_url rest (products @ [PDict product_data]))"

definition paginated_url :: "string \<Rightarrow> nat \<Rightarrow> string" where
  \<comment> \<open>\<open>f"{products_url}?{urlencode({'limit': 250, 'page': page})}"\<close>\<close>
  "paginated_url products_url page =
     products_url @ ''?'' @ ''limit='' @ str_int 250 @ ''&'' @ ''page='' @ str_int (int page)"

text \<open>
  The loop \<open>while True\<close> may run for ever (a host that never serves an empty page), so it
  takes fuel: \<open>None\<close> means that the fuel ran out before the loop ended.  Every way out of
  the loop returns the products collected so far: the \<open>break\<close> on an empty page, the
  \<open>break\<close> on \<open>JSONDecodeError\<close>, and any other exception, which the outer \<open>except\<close> logs.
\<close>

fun catalog_loop ::
  "nat \<Rightarrow> env \<Rightarrow> string \<Rightarrow> string \<Rightarrow> nat \<Rightarrow> nat \<Rightarrow> pyval list \<Rightarrow> (pyval list \<times> event list) option" where
  "catalog_loop 0 E products_url website_url page n products = None"
| "catalog_loop (Suc fuel) E products_url website_url page n products =
     (case fetch_page E (paginated_url products_url page) n of
        (Inl e, evs) \<Rightarrow> Some (products, evs)
      | (Inr response_text, evs) \<Rightarrow>
          (case (case response_text of
                   None \<Rightarrow> Inl (Exn TypeError ''the JSON object must be str, bytes or bytearray'')
                 | Some t \<Rightarrow> json_loads E t) of
             Inl e \<Rightarrow> Some (products, evs)
           | Inr data \<Rightarrow>
               (case py_get data ''products'' (PList []) of
                  Inl e \<Rightarrow> Some (products, evs)
                | Inr page_products \<Rightarrow>
                    if \<not> truthy page_products then Some (products, evs)
                    else
                      (case py_iter page_products of
                         Inl e \<Rightarrow> Some (products, evs)
                       | Inr items \<Rightarrow>
                           (case add_products E website_url items products of
                              (Some e, products') \<Rightarrow> Some (products', evs)
                            | (None, products') \<Rightarrow>
                                (case catalog_loop fuel E products_url website_url (Suc page)
                                        (n + nreq evs) products' of
                                   None \<Rightarrow> None
                                 | Some (result, evs') \<Rightarrow>
                                     Some (result, evs @ Sleep DELAY_BETWEEN_REQUESTS # evs')))))))"

definition get_product_catalog :: "nat \<Rightarrow> env \<Rightarrow> string \<Rightarrow> nat \<Rightarrow> (pyval list \<times> event list) option" where
  "get_product_catalog fuel E website_url n =
     (case urljoin E website_url ''/products.json'' of
        Inl e \<Rightarrow> Some ([], [])
      | Inr products_url \<Rightarrow> catalog_loop fuel E products_url website_url 1 n [])"

definition serves_page :: "env \<Rightarrow> nat \<Rightarrow> string \<Rightarrow> pyval list \<Rightarrow> bool" where
  \<comment> \<open>The \<open>n\<close>-th request, made for \<open>u\<close>, is answered at once with a JSON object whose
      \<open>products\<close> array is \<open>ps\<close>.\<close>
  "serves_page E n u ps =
     (case get_checked E n u of
        Inl e \<Rightarrow> False
      | Inr r \<Rightarrow>
          (case json_loads E (resp_text r) of
             Inr (PDict d) \<Rightarrow> map_of d ''products'' = Some (PList ps)
           | _ \<Rightarrow> False))"

fun requests :: "event list \<Rightarrow> string list" where
  \<comment> \<open>The URLs requested, in order.\<close>
  "requests [] = []"
| "requests (Request u # evs) = u # requests evs"
| "requests (Sleep t # evs) = requests evs"

definition normalised :: "env \<Rightarrow> string \<Rightarrow> pyval \<Rightarrow> pyval" where
  \<comment> \<open>The record appended for a product whose normalisation does not raise.\<close>
  "normalised E website_url product =
     (case product_data_of E website_url product of Inr d \<Rightarrow> PDict d | Inl e \<Rightarrow> PNone)"

definition full_pages :: "env \<Rightarrow> string \<Rightarrow> string \<Rightarrow> nat \<Rightarrow> pyval list list \<Rightarrow> bool" where
  \<comment> \<open>From request \<open>n\<close> on, the endpoint answers page \<open>k + 1\<close> with the non-empty product
      array \<open>pages ! k\<close>, each product of which can be normalised, and the page after the
      last one with an empty array.\<close>
  "full_pages E products_url website_url n pages =
     ((\<forall>k < length pages.
         serves_page E (n + k) (paginated_url products_url (Suc k)) (pages ! k) \<and>
         pages ! k \<noteq> [] \<and>
         (\<forall>p \<in> set (pages ! k). \<exists>d. product_data_of E website_url p = Inr d)) \<and>
      serves_page E (n + length pages) (paginated_url products_url (Suc (length pages))) [])"

section \<open>\<open>app/utils/helpers.py\<close>: e-mail addresses and phone numbers\<close>

fun startswith :: "string \<Rightarrow> string \<Rightarrow> bool" where
  \<comment> \<open>\<open>s.startswith(prefix)\<close>\<close>
  "startswith s [] = True"
| "startswith [] (p # ps) = False"
| "startswith (c # cs) (p # ps) = (c = p \<and> startswith cs ps)"

fun py_in :: "string \<Rightarrow> string \<Rightarrow> bool" where
  \<comment> \<open>\<open>needle in s\<close> for strings\<close>
  "py_in needle [] = (needle = [])"
| "py_in needle (c # cs) = (startswith (c # cs) needle \<or> py_in needle cs)"

definition extract_email_addresses :: "env \<Rightarrow> string \<Rightarrow> string list" where
  "extract_email_addresses E text =
     (if text = [] then [] else list_of_set E (findall_email E text))"

definition is_digit :: "char \<Rightarrow> bool" where
  "is_digit c = (of_char CHR ''0'' \<le> (of_char c :: nat) \<and> (of_char c :: nat) \<le> of_char CHR ''9'')"

definition extract_phone_numbers :: "env \<Rightarrow> string \<Rightarrow> string list" where
  \<comment> \<open>Each match of the pattern is the tuple of its four groups.\<close>
  "extract_phone_numbers E text =
     (if text = [] then []
      else list_of_set E
             (filter (\<lambda>phone. 10 \<le> length phone)
                (map (\<lambda>m. filter (\<lambda>c. is_digit c \<or> c = CHR ''+'') (concat m))
                   (findall_phone E text))))"

section \<open>\<open>ShopifyScraperService._extract_contact_info\<close>\<close>

definition skip_words :: "string list" where
  "skip_words = [''no-reply'', ''noreply'', ''donotreply'', ''example.com'']"

definition skipped :: "string \<Rightarrow> bool" where
  \<comment> \<open>\<open>any(skip in email.lower() for skip in [...])\<close>\<close>
  "skipped email = list_ex (\<lambda>skip. py_in skip (lower email)) skip_words"

definition extract_contact_info :: "env \<Rightarrow> string \<Rightarrow> pydict" where
  "extract_contact_info E html_content =
     (let emails = extract_email_addresses E html_content;
          result =
            (case emails of
               [] \<Rightarrow> []
             | first # _ \<Rightarrow>
                 (let filtered_emails = filter (\<lambda>email. \<not> skipped email) emails
                  in [(''contact_email'',
                       PStr (case filtered_emails of [] \<Rightarrow> first | f # _ \<Rightarrow> f))]));
          phones = extract_phone_numbers E html_content
      in case phones of
           [] \<Rightarrow> result
         | phone # _ \<Rightarrow> AList.update ''contact_phone'' (PStr phone) result)"

section \<open>\<open>app/utils/helpers.py\<close>: \<open>extract_domain\<close> and \<open>is_shopify_store\<close>\<close>

text \<open>
  \<open>urlparse(url).netloc\<close>, after \<open>urllib.parse.urlsplit\<close>: leading control characters and
  spaces are stripped, tabs and line breaks removed, a scheme is split off, and the network
  location is what follows \<open>//\<close> up to the first of \<open>/ ? #\<close>.  A network location with only
  one of the two square brackets raises \<open>ValueError\<close>.  The two further checks of the
  library (of a bracketed host, and of a network location outside ASCII) are parameters of
  the environment.
\<close>

definition is_alpha :: "char \<Rightarrow> bool" where
  "is_alpha c =
     ((of_char CHR ''a'' \<le> (of_char c :: nat) \<and> (of_char c :: nat) \<le> of_char CHR ''z'') \<or>
      (of_char CHR ''A'' \<le> (of_char c :: nat) \<and> (of_char c :: nat) \<le> of_char CHR ''Z''))"

definition scheme_char :: "char \<Rightarrow> bool" where
  "scheme_char c = (is_alpha c \<or> is_digit c \<or> c \<in> set ''+-.'')"

definition strip_scheme :: "string \<Rightarrow> string" where
  "strip_scheme u =
     (let pre = takeWhile (\<lambda>c. c \<noteq> CHR '':'') u
      in if CHR '':'' \<in> set u \<and> pre \<noteq> [] \<and> is_alpha (hd pre) \<and> list_all scheme_char pre
         then drop (Suc (length pre)) u else u)"

definition urlsplit_netloc :: "env \<Rightarrow> string \<Rightarrow> exn + string" where
  "urlsplit_netloc E u0 =
     (let u = filter (\<lambda>c. (of_char c :: nat) \<notin> {9, 10, 13})
                (dropWhile (\<lambda>c. (of_char c :: nat) \<le> 32) u0);
          u = strip_scheme u
      in if take 2 u = ''//'' then
           (let netloc = takeWhile (\<lambda>c. c \<notin> set ''/?#'') (drop 2 u)
            in if (CHR ''['' \<in> set netloc \<and> CHR '']'' \<notin> set netloc) \<or>
                  (CHR '']'' \<in> set netloc \<and> CHR ''['' \<notin> set netloc)
               then Inl (Exn ValueError ''Invalid IPv6 URL'')
               else
                 (case (if CHR ''['' \<in> set netloc \<and> CHR '']'' \<in> set netloc
                        then check_bracketed_host E
                               (takeWhile (\<lambda>c. c \<noteq> CHR '']'')
                                  (drop 1 (dropWhile (\<lambda>c. c \<noteq> CHR ''['') netloc)))
                        else None) of
                    Some e \<Rightarrow> Inl e
                  | None \<Rightarrow>
                      (case (if netloc \<noteq> [] \<and> \<not> list_all (\<lambda>c. (of_char c :: nat) < 128) netloc
                             then checknetloc E netloc else None) of
                         Some e \<Rightarrow> Inl e
                       | None \<Rightarrow> Inr netloc)))
         else Inr [])"

definition extract_domain :: "env \<Rightarrow> string \<Rightarrow> exn + string" where
  "extract_domain E u = exn_bind (urlsplit_netloc E u) (\<lambda>netloc. Inr (lower netloc))"

definition shopify_indicators :: "string list" where
  "shopify_indicators =
     [''Shopify.theme'', ''shopify.com'', ''shopify-analytics'', ''cdn.shopify.com'',
      ''myshopify.com'', ''Shopify.shop'', ''window.Shopify'']"

definition is_shopify_store :: "string option \<Rightarrow> string \<Rightarrow> bool" where
  "is_shopify_store html_content u =
     (case html_content of
        None \<Rightarrow> False
      | Some h \<Rightarrow>
          if h = [] then False
          else if list_ex (\<lambda>indicator. py_in indicator h) shopify_indicators then True
          else if u \<noteq> [] \<and> py_in ''myshopify.com'' u then True
          else False)"

section \<open>\<open>ShopifyScraperService._extract_basic_info\<close>\<close>

definition is_cased :: "char \<Rightarrow> bool" where
  \<comment> \<open>The cased characters below 256: the letters \<open>A\<close> to \<open>Z\<close> and \<open>a\<close> to \<open>z\<close>, the ordinal
      indicators 170 and 186, the micro sign 181, and the letters from 192 on without the
      multiplication sign 215 and the division sign 247.\<close>
  "is_cased c =
     ((65 \<le> (of_char c :: nat) \<and> (of_char c :: nat) \<le> 90) \<or>
      (97 \<le> (of_char c :: nat) \<and> (of_char c :: nat) \<le> 122) \<or>
      (of_char c :: nat) \<in> {170, 181, 186} \<or>
      (192 \<le> (of_char c :: nat) \<and> (of_char c :: nat) \<noteq> 215 \<and> (of_char c :: nat) \<noteq> 247))"

definition title_char :: "char \<Rightarrow> string" where
  \<comment> \<open>The title case of a character: the capital of a lower-case letter, \<open>Ss\<close> for the sharp
      s (223).  The title case of the micro sign (181) and of the y with diaeresis (255) lies
      above 255: these two are left as they are.\<close>
  "title_char c =
     (if (97 \<le> (of_char c :: nat) \<and> (of_char c :: nat) \<le> 122) \<or>
         (224 \<le> (of_char c :: nat) \<and> (of_char c :: nat) \<le> 254 \<and> (of_char c :: nat) \<noteq> 247)
      then [char_of (of_char c - (32 :: nat))]
      else if (of_char c :: nat) = 223 then ''Ss''
      else [c])"

fun title_acc :: "bool \<Rightarrow> string \<Rightarrow> string" where
  \<comment> \<open>\<open>s.title()\<close>; the flag says that the previous character was cased.\<close>
  "title_acc prev [] = []"
| "title_acc prev (c # cs) =
     (if is_cased c then (if prev then [lower_char c] else title_char c) @ title_acc True cs
      else c # title_acc False cs)"

definition py_title :: "string \<Rightarrow> string" where
  "py_title s = title_acc False s"

definition not_name :: "string option \<Rightarrow> bool" where
  \<comment> \<open>\<open>not brand_name\<close>\<close>
  "not_name brand_name = (brand_name = None \<or> brand_name = Some [])"

definition site_name_meta :: "node \<Rightarrow> bool" where
  \<comment> \<open>a \<open>meta\<close> tag whose \<open>property\<close> is \<open>og:site_name\<close> or \<open>twitter:site\<close>\<close>
  "site_name_meta t =
     (tag_named [''meta''] t \<and>
      (case tag_get t ''property'' of
         None \<Rightarrow> False
       | Some v \<Rightarrow> v \<in> set [''og:site_name'', ''twitter:site'']))"

definition has_content :: "node \<Rightarrow> bool" where
  \<comment> \<open>\<open>if meta_tag.get('content')\<close>\<close>
  "has_content t = (case tag_get t ''content'' of None \<Rightarrow> False | Some c \<Rightarrow> c \<noteq> [])"

definition logo_tag :: "node \<Rightarrow> bool" where
  \<comment> \<open>\<open>['img', 'h1', 'h2']\<close> with \<open>{'alt': True, 'title': True}\<close>: both attributes present\<close>
  "logo_tag t =
     (tag_named [''img'', ''h1'', ''h2''] t \<and> tag_get t ''alt'' \<noteq> None \<and> tag_get t ''title'' \<noteq> None)"

definition logo_text :: "node \<Rightarrow> string" where
  \<comment> \<open>\<open>logo.get('alt') or logo.get('title') or logo.text\<close>\<close>
  "logo_text logo =
     (case tag_get logo ''alt'' of
        Some (a # as) \<Rightarrow> a # as
      | _ \<Rightarrow>
          (case tag_get logo ''title'' of
             Some (t # ts) \<Rightarrow> t # ts
           | _ \<Rightarrow> get_text logo))"

definition header_logo :: "node \<Rightarrow> node option" where
  \<comment> \<open>the logo of the first \<open>header\<close>, when the document has both\<close>
  "header_logo soup =
     (case soup_find soup (tag_named [''header'']) of
        None \<Rightarrow> None
      | Some header \<Rightarrow> soup_find header logo_tag)"

definition name_after_title :: "env \<Rightarrow> node \<Rightarrow> string option" where
  "name_after_title E soup =
     (case soup_find soup (tag_named [''title'']) of
        None \<Rightarrow> None
      | Some title_tag \<Rightarrow> Some (clean_text E (get_text title_tag)))"

definition name_after_meta :: "env \<Rightarrow> node \<Rightarrow> string option" where
  \<comment> \<open>The loop over the \<open>meta\<close> tags is not guarded by \<open>if not brand_name\<close>.\<close>
  "name_after_meta E soup =
     (case List.find has_content (soup_find_all soup site_name_meta) of
        None \<Rightarrow> name_after_title E soup
      | Some meta_tag \<Rightarrow> Some (clean_text_opt E (tag_get meta_tag ''content'')))"

definition name_after_header :: "env \<Rightarrow> node \<Rightarrow> string option" where
  "name_after_header E soup =
     (let brand_name = name_after_meta E soup
      in if not_name brand_name then
           (case header_logo soup of
              None \<Rightarrow> brand_name
            | Some logo \<Rightarrow> Some (clean_text E (logo_text logo)))
         else brand_name)"

definition domain_name :: "env \<Rightarrow> string \<Rightarrow> exn + string" where
  \<comment> \<open>\<open>extract_domain(website_url).split('.')[0].title()\<close>\<close>
  "domain_name E website_url =
     exn_bind (extract_domain E website_url)
       (\<lambda>domain. Inr (py_title (takeWhile (\<lambda>c. c \<noteq> CHR ''.'') domain)))"

definition brand_name_of :: "env \<Rightarrow> node \<Rightarrow> string \<Rightarrow> exn + string" where
  "brand_name_of E soup website_url =
     (case name_after_header E soup of
        None \<Rightarrow> domain_name E website_url
      | Some brand_name \<Rightarrow>
          if brand_name = [] then domain_name E website_url else Inr brand_name)"

definition about_section :: "node \<Rightarrow> bool" where
  \<comment> \<open>\<open>['section', 'div']\<close> with a class that contains \<open>about\<close>, whatever the case\<close>
  "about_section t =
     (tag_named [''section'', ''div''] t \<and>
      (case tag_get t ''class'' of
         None \<Rightarrow> False
       | Some v \<Rightarrow> v \<noteq> [] \<and> py_in ''about'' (lower v)))"

definition brand_context_of :: "env \<Rightarrow> node \<Rightarrow> string" where
  "brand_context_of E soup =
     (let brand_context =
            (case soup_find soup
                    (\<lambda>t. tag_named [''meta''] t \<and> tag_get t ''name'' = Some ''description'') of
               None \<Rightarrow> []
             | Some meta_desc \<Rightarrow>
                 if has_content meta_desc then clean_text_opt E (tag_get meta_desc ''content'')
                 else []);
          brand_context =
            (case soup_find soup about_section of
               None \<Rightarrow> brand_context
             | Some section \<Rightarrow>
                 (let about_text = clean_text E (get_text section)
                  in if length about_text > length brand_context then about_text
                     else brand_context))
      in truncate_text brand_context 1000)"

definition extract_basic_info :: "env \<Rightarrow> node \<Rightarrow> string \<Rightarrow> exn + pydict" where
  "extract_basic_info E soup website_url =
     exn_bind (brand_name_of E soup website_url)
       (\<lambda>brand_name.
          Inr [(''name'', PStr brand_name), (''brand_context'', PStr (brand_context_of E soup))])"

section \<open>\<open>ShopifyScraperService._extract_policies\<close>\<close>

definition normalize_url :: "env \<Rightarrow> string \<Rightarrow> string \<Rightarrow> exn + string" where
  \<comment> \<open>\<open>normalize_url(url, base_url)\<close> of \<open>helpers.py\<close>\<close>
  "normalize_url E u base_url =
     exn_bind
       (if base_url \<noteq> [] \<and> \<not> (startswith u ''http://'' \<or> startswith u ''https://'')
        then urljoin E base_url u else Inr u)
       (\<lambda>u'. Inr (rev (dropWhile (\<lambda>c. c = CHR ''/'') (rev u'))))"

definition policies :: "(string \<times> string list) list" where
  "policies =
     [(''privacy_policy'', [''privacy'', ''privacy-policy'']),
      (''return_policy'', [''return'', ''returns'', ''return-policy'']),
      (''refund_policy'', [''refund'', ''refunds'', ''refund-policy''])]"

definition policy_link :: "string \<Rightarrow> node \<Rightarrow> bool" where
  \<comment> \<open>an \<open>a\<close> tag whose \<open>href\<close> contains the keyword, whatever the case\<close>
  "policy_link keyword t =
     (tag_named [''a''] t \<and>
      (case tag_get t ''href'' of
         None \<Rightarrow> False
       | Some h \<Rightarrow> h \<noteq> [] \<and> py_in keyword (lower h)))"

fun first_policy_link :: "node \<Rightarrow> string list \<Rightarrow> node option" where
  \<comment> \<open>The loop over the keywords stops at the first keyword that has a link.\<close>
  "first_policy_link soup [] = None"
| "first_policy_link soup (keyword # keywords) =
     (case soup_find soup (policy_link keyword) of
        Some link \<Rightarrow> Some link
      | None \<Rightarrow> first_policy_link soup keywords)"

fun decompose_all :: "string list \<Rightarrow> node \<Rightarrow> node" where
  \<comment> \<open>\<open>element.decompose()\<close> for every tag with one of the names\<close>
  "decompose_all names (NavigableString s) = NavigableString s"
| "decompose_all names (SubclassString cls s) = SubclassString cls s"
| "decompose_all names (Tag name attrs children) =
     Tag name attrs (map (decompose_all names) (filter (\<lambda>c. \<not> tag_named names c) children))"

definition policy_text_of :: "env \<Rightarrow> string \<Rightarrow> nat \<Rightarrow> string \<times> event list" where
  \<comment> \<open>The inner \<open>try\<close>: any exception leaves the text empty.\<close>
  "policy_text_of E policy_url n =
     (case fetch_page E policy_url n of
        (Inl e, evs) \<Rightarrow> ([], evs)
      | (Inr None, evs) \<Rightarrow> ([], evs)
      | (Inr (Some policy_content), evs) \<Rightarrow>
          (case parse_html E policy_content of
             Inl e \<Rightarrow> ([], evs)
           | Inr policy_soup \<Rightarrow>
               (truncate_text
                  (clean_text E
                     (get_text (decompose_all [''nav'', ''header'', ''footer''] policy_soup)))
                  2000,
                evs)))"

fun extract_policies ::
  "env \<Rightarrow> node \<Rightarrow> string \<Rightarrow> (string \<times> string list) list \<Rightarrow> nat \<Rightarrow> pydict \<Rightarrow>
     (exn + pydict) \<times> event list" where
  "extract_policies E soup website_url [] n result = (Inr result, [])"
| "extract_policies E soup website_url ((policy_type, keywords) # rest) n result =
     (case first_policy_link soup keywords of
        None \<Rightarrow>
          extract_policies E soup website_url rest n
            (result @ [(policy_type @ ''_url'', PNone), (policy_type @ ''_text'', PStr [])])
      | Some link \<Rightarrow>
          (case normalize_url E (case tag_get link ''href'' of Some h \<Rightarrow> h | None \<Rightarrow> [])
                  website_url of
             Inl e \<Rightarrow> (Inl e, [])
           | Inr policy_url \<Rightarrow>
               (case policy_text_of E policy_url n of
                  (policy_text, evs) \<Rightarrow>
                    (case extract_policies E soup website_url rest (n + nreq evs)
                            (result @ [(policy_type @ ''_url'', PStr policy_url),
                                       (policy_type @ ''_text'', PStr policy_text)]) of
                       (r, evs') \<Rightarrow> (r, evs @ evs')))))"

section \<open>\<open>ShopifyScraperService.scrape_store\<close>\<close>

definition dict_update :: "pydict \<Rightarrow> pydict \<Rightarrow> pydict" where
  \<comment> \<open>\<open>result.update(d)\<close>\<close>
  "dict_update result d = foldl (\<lambda>r kv. AList.update (fst kv) (snd kv) r) result d"

definition failed_result :: "string \<Rightarrow> string \<Rightarrow> exn \<Rightarrow> pydict" where
  \<comment> \<open>The dictionary returned by the handler of \<open>scrape_store\<close>.\<close>
  "failed_result website_url domain e =
     [(''website_url'', PStr website_url),
      (''domain'', PStr domain),
      (''is_shopify_store'', PBool False),
      (''scraping_status'', PStr ''failed''),
      (''scraping_errors'', PStr (exn_str e))]"

text \<open>
  The body of the \<open>try\<close> of \<open>scrape_store\<close> after \<open>domain\<close> is assigned.  The four passes
  \<open>extract_social_handles\<close>, \<open>extract_important_links\<close>, \<open>_extract_faqs\<close> and
  \<open>_extract_hero_products\<close> are parameters of the environment: each may return any value or
  raise any exception.  The result is \<open>None\<close> when the catalogue loop does not end within
  the fuel.
\<close>

definition scrape_body ::
  "nat \<Rightarrow> env \<Rightarrow> string \<Rightarrow> string \<Rightarrow> nat \<Rightarrow> ((exn + pydict) \<times> event list) option" where
  "scrape_body fuel E website_url domain n =
     (case fetch_page E website_url n of
        (Inl e, evs) \<Rightarrow> Some (Inl e, evs)
      | (Inr html_content, evs) \<Rightarrow>
          (let is_shopify = is_shopify_store html_content website_url;
               result = [(''website_url'', PStr website_url),
                         (''domain'', PStr domain),
                         (''is_shopify_store'', PBool is_shopify),
                         (''scraping_status'', PStr ''completed''),
                         (''scraping_errors'', PNone)]
           in case html_content of
                None \<Rightarrow> Some (Inl (Exn TypeError ''object of type NoneType has no len()''), evs)
              | Some html \<Rightarrow>
           (case parse_html E html of
              Inl e \<Rightarrow> Some (Inl e, evs)
            | Inr soup \<Rightarrow>
           (case extract_basic_info E soup website_url of
              Inl e \<Rightarrow> Some (Inl e, evs)
            | Inr basic_info \<Rightarrow>
           (let result = dict_update result basic_info;
                result = dict_update result (extract_contact_info E html)
            in case pass_social_handles E html of
                 Inl e \<Rightarrow> Some (Inl e, evs)
               | Inr social_handles \<Rightarrow>
           (let result = AList.update ''social_handles'' social_handles result
            in case pass_important_links E html website_url of
                 Inl e \<Rightarrow> Some (Inl e, evs)
               | Inr important_links \<Rightarrow>
           (let result = AList.update ''important_links'' important_links result
            in case extract_policies E soup website_url policies (n + nreq evs) [] of
                 (Inl e, evs2) \<Rightarrow> Some (Inl e, evs @ evs2)
               | (Inr policy_info, evs2) \<Rightarrow>
           (let result = dict_update result policy_info
            in case pass_faqs E soup website_url of
                 Inl e \<Rightarrow> Some (Inl e, evs @ evs2)
               | Inr faqs \<Rightarrow>
           (let result = AList.update ''faqs'' faqs result
            in case pass_hero_products E soup website_url of
                 Inl e \<Rightarrow> Some (Inl e, evs @ evs2)
               | Inr hero_products \<Rightarrow>
           (let result = AList.update ''hero_products'' hero_products result
            in if is_shopify then
                 (case get_product_catalog fuel E website_url (n + nreq evs + nreq evs2) of
                    None \<Rightarrow> None
                  | Some (product_catalog, evs3) \<Rightarrow>
                      Some (Inr (AList.update ''product_catalog'' (PList product_catalog) result),
                            evs @ evs2 @ evs3))
               else Some (Inr result, evs @ evs2)))))))))))"

definition qualify_url :: "string \<Rightarrow> string" where
  \<comment> \<open>the first statement of \<open>scrape_store\<close>\<close>
  "qualify_url website_url =
     (if \<not> (startswith website_url ''http://'' \<or> startswith website_url ''https://'')
      then ''https://'' @ website_url else website_url)"

text \<open>
  \<open>scrape_store\<close>.  When \<open>extract_domain\<close> raises, the handler runs with \<open>domain\<close> not among
  the local variables and calls \<open>extract_domain\<close> again, outside any \<open>try\<close>.
\<close>

definition scrape_store ::
  "nat \<Rightarrow> env \<Rightarrow> string \<Rightarrow> nat \<Rightarrow> ((exn + pydict) \<times> event list) option" where
  "scrape_store fuel E website_url0 n =
     (let website_url = qualify_url website_url0
      in case extract_domain E website_url of
           Inl e \<Rightarrow>
             (case extract_domain E website_url of
                Inl e' \<Rightarrow> Some (Inl e', [])
              | Inr domain \<Rightarrow> Some (Inr (failed_result website_url domain e), []))
         | Inr domain \<Rightarrow>
             (case scrape_body fuel E website_url domain n of
                None \<Rightarrow> None
              | Some (Inl e, evs) \<Rightarrow> Some (Inr (failed_result website_url domain e), evs)
              | Some (Inr result, evs) \<Rightarrow> Some (Inr result, evs)))"

section \<open>\<open>LLMProcessorService.process_brand_context\<close>\<close>

definition process_brand_context :: "env \<Rightarrow> pydict \<Rightarrow> pydict" where
  \<comment> \<open>The function catches every exception: it returns the dictionary it was given, as it
      is (no API key) or with the key \<open>llm_analysis\<close> set (to the insights or to an error).\<close>
  "process_brand_context E scraped_data =
     (case llm_analysis E scraped_data of
        None \<Rightarrow> scraped_data
      | Some v \<Rightarrow> AList.update ''llm_analysis'' v scraped_data)"

section \<open>\<open>CompetitorAnalyzerService\<close>\<close>

definition find_competitors :: "string list" where
  "find_competitors =
     take 3 [''gymshark.com'', ''allbirds.com'', ''colourpop.com'', ''bombas.com'',
             ''casper.com'', ''warbyparker.com'', ''glossier.com'', ''away.com'',
             ''outdoor-voices.com'', ''everlane.com'']"

definition py_len :: "pyval \<Rightarrow> exn + nat" where
  "py_len v =
     (case v of
        PStr s \<Rightarrow> Inr (length s)
      | PList xs \<Rightarrow> Inr (length xs)
      | PDict d \<Rightarrow> Inr (length d)
      | _ \<Rightarrow> Inl (Exn TypeError ''object has no len()''))"

definition analyze_competitor_strengths :: "pydict \<Rightarrow> exn + pyval" where
  "analyze_competitor_strengths competitor_data =
     exn_bind (py_len (dget competitor_data ''product_catalog'' (PList []))) (\<lambda>n_products.
     exn_bind (py_len (dget competitor_data ''social_handles'' (PDict []))) (\<lambda>n_social.
     exn_bind (py_len (dget competitor_data ''hero_products'' (PList []))) (\<lambda>n_hero.
     exn_bind (py_len (dget competitor_data ''faqs'' (PList []))) (\<lambda>n_faqs.
     let policy_count =
           length (filter truthy
             [dget competitor_data ''privacy_policy_text'' PNone,
              dget competitor_data ''return_policy_text'' PNone,
              dget competitor_data ''refund_policy_text'' PNone]);
         strengths =
           (if n_products > 100 then [''Large product catalog''] else []) @
           (if n_social \<ge> 3 then [''Strong social media presence''] else []) @
           (if n_hero \<ge> 3 then [''Good product merchandising''] else []) @
           (if n_faqs \<ge> 5 then [''Comprehensive customer support''] else []) @
           (if policy_count \<ge> 3 then [''Comprehensive policy documentation''] else []);
         weaknesses =
           (if \<not> n_products > 100 \<and> n_products < 20 then [''Limited product range''] else []) @
           (if \<not> n_social \<ge> 3 \<and> n_social < 2 then [''Limited social media presence''] else []) @
           (if \<not> n_faqs \<ge> 5 \<and> n_faqs < 2
            then [''Limited customer support information''] else []) @
           (if \<not> policy_count \<ge> 3 \<and> policy_count < 2
            then [''Incomplete policy information''] else [])
     in Inr (PDict [(''strengths'', PList (map PStr strengths)),
                    (''weaknesses'', PList (map PStr weaknesses)),
                    (''opportunities'', PList []),
                    (''threats'', PList [])])))))"

definition competitor_failed :: "string \<Rightarrow> exn \<Rightarrow> pydict" where
  \<comment> \<open>The dictionary returned by the handler of \<open>analyze_competitor\<close>.\<close>
  "competitor_failed competitor_url e =
     [(''website_url'', PStr competitor_url),
      (''scraping_status'', PStr ''failed''),
      (''scraping_errors'', PStr (exn_str e))]"

definition analyze_competitor ::
  "nat \<Rightarrow> env \<Rightarrow> string \<Rightarrow> nat \<Rightarrow> (pydict \<times> event list) option" where
  "analyze_competitor fuel E competitor_url n =
     (case scrape_store fuel E competitor_url n of
        None \<Rightarrow> None
      | Some (Inl e, evs) \<Rightarrow> Some (competitor_failed competitor_url e, evs)
      | Some (Inr competitor_data, evs) \<Rightarrow>
          if dget competitor_data ''scraping_status'' PNone = PStr ''failed''
          then Some (competitor_data, evs)
          else
            (let competitor_data = process_brand_context E competitor_data
             in case analyze_competitor_strengths competitor_data of
                  Inl e \<Rightarrow> Some (competitor_failed competitor_url e, evs)
                | Inr analysis \<Rightarrow>
                    Some (AList.update ''competitor_analysis'' analysis competitor_data, evs)))"

section \<open>The database\<close>

text \<open>
  The persistence layer is outside the repository's code.  It is modelled as the tables and
  a session whose changes reach the tables at \<open>commit\<close> and are dropped at \<open>rollback\<close>.
  The columns of a row that the properties below do not read are kept as one dictionary
  from column name to value.

  The schema of \<open>app/models\<close> declares \<open>brands.name\<close> and \<open>products.title\<close> as
  \<open>nullable=False\<close> and \<open>brands.website_url\<close> as \<open>unique=True\<close>.  A flush (the first step
  of a commit, and of the query that deletes the products) that breaks one of these
  constraints raises \<open>IntegrityError\<close>, writes nothing and leaves the session in need of a
  rollback: until \<open>db.session.rollback()\<close> is called, every further statement of the session
  raises \<open>PendingRollbackError\<close>.  The other columns declared \<open>nullable=False\<close> are always
  set by the code that builds the row (the URL and domain of a brand, the brand id of a
  product; for competitors and analyses see \<open>_save_competitor\<close> and \<open>_save_analysis\<close> below).
  The database is taken to accept every statement that keeps these constraints, and every
  call of \<open>analyze_brand\<close> starts with a session that has nothing pending.  The rows that
  are committed keep the constraints, so the check of a flush, which is on the rows that
  changed, is written as a check of all rows of the session.
\<close>

record brand_row =
  brand_id :: nat
  brand_website_url :: string
  brand_domain :: string
  brand_scraping_status :: string
  brand_scraping_errors :: pyval
  brand_last_scraped :: pyval
  brand_created_at :: pyval
  brand_columns :: pydict

record product_row =
  product_brand_id :: nat
  product_columns :: pydict

record competitor_row =
  competitor_id :: nat
  competitor_brand_id :: nat
  competitor_created_at :: pyval
  competitor_columns :: pydict

record analysis_row =
  analysis_brand_id :: nat
  analysis_columns :: pydict

record tables =
  brand_rows :: "brand_row list"
  product_rows :: "product_row list"
  competitor_rows :: "competitor_row list"
  analysis_rows :: "analysis_row list"
  next_brand_id :: nat
  next_competitor_id :: nat

record db =
  committed :: tables
  session :: tables

definition commit :: "db \<Rightarrow> db" where
  \<comment> \<open>what a commit writes once its flush has gone through\<close>
  "commit d = d \<lparr> committed := session d \<rparr>"

definition rollback :: "db \<Rightarrow> db" where
  "rollback d = d \<lparr> session := committed d \<rparr>"

definition integrity_error :: "env \<Rightarrow> tables \<Rightarrow> exn option" where
  \<comment> \<open>The constraint of the schema that the rows break, if any: the exception of the flush.\<close>
  "integrity_error E t =
     (if list_ex (\<lambda>b. dget (brand_columns b) ''name'' PNone = PNone) (brand_rows t) then
        Some (Exn IntegrityError (db_error_text E ''NOT NULL constraint failed: brands.name''))
      else if \<not> distinct (map brand_website_url (brand_rows t)) then
        Some (Exn IntegrityError (db_error_text E ''UNIQUE constraint failed: brands.website_url''))
      else if list_ex (\<lambda>p. dget (product_columns p) ''title'' PNone = PNone) (product_rows t) then
        Some (Exn IntegrityError (db_error_text E ''NOT NULL constraint failed: products.title''))
      else None)"

definition flush :: "env \<Rightarrow> db \<Rightarrow> exn + db" where
  \<comment> \<open>The pending changes of the session are sent to the database, which checks them.\<close>
  "flush E d = (case integrity_error E (session d) of Some e \<Rightarrow> Inl e | None \<Rightarrow> Inr d)"

definition try_commit :: "env \<Rightarrow> db \<Rightarrow> exn + db" where
  \<comment> \<open>\<open>db.session.commit()\<close> in a session that needs no rollback: flush, then write.\<close>
  "try_commit E d = exn_bind (flush E d) (\<lambda>d. Inr (commit d))"

definition find_brand :: "db \<Rightarrow> string \<Rightarrow> brand_row option" where
  \<comment> \<open>\<open>Brand.query.filter_by(domain=domain).first()\<close>\<close>
  "find_brand d dmn = List.find (\<lambda>b. brand_domain b = dmn) (brand_rows (session d))"

definition get_brand :: "db \<Rightarrow> nat \<Rightarrow> brand_row option" where
  "get_brand d i = List.find (\<lambda>b. brand_id b = i) (brand_rows (session d))"

definition set_brand :: "nat \<Rightarrow> (brand_row \<Rightarrow> brand_row) \<Rightarrow> db \<Rightarrow> db" where
  \<comment> \<open>assignments to attributes of the brand object with this id\<close>
  "set_brand i f d =
     d \<lparr> session := (session d)
           \<lparr> brand_rows := map (\<lambda>b. if brand_id b = i then f b else b) (brand_rows (session d)) \<rparr> \<rparr>"

definition add_brand :: "env \<Rightarrow> string \<Rightarrow> string \<Rightarrow> db \<Rightarrow> nat \<times> db" where
  \<comment> \<open>\<open>brand = Brand()\<close>, the three assignments and \<open>db.session.add(brand)\<close>.  The new row
      has no \<open>name\<close> yet (no column of \<open>brand_columns\<close> is set); it is shown with the id that
      the insert would give it.\<close>
  "add_brand E website_url dmn d =
     (let i = next_brand_id (session d);
          b = \<lparr> brand_id = i, brand_website_url = website_url, brand_domain = dmn,
                brand_scraping_status = ''in_progress'', brand_scraping_errors = PNone,
                brand_last_scraped = utcnow E, brand_created_at = utcnow E,
                brand_columns = [] \<rparr>
      in (i, d \<lparr> session := (session d)
                   \<lparr> brand_rows := brand_rows (session d) @ [b], next_brand_id := Suc i \<rparr> \<rparr>))"


section \<open>\<open>BrandAnalyzerService\<close>\<close>

definition fact_columns :: "string list" where
  "fact_columns =
     [''brand_context'', ''contact_email'', ''contact_phone'', ''social_handles'',
      ''privacy_policy_url'', ''privacy_policy_text'', ''return_policy_url'',
      ''return_policy_text'', ''refund_policy_url'', ''refund_policy_text'',
      ''faqs'', ''important_links'', ''hero_products'']"

definition update_brand_from_scraped_data :: "env \<Rightarrow> nat \<Rightarrow> pydict \<Rightarrow> db \<Rightarrow> db" where
  "update_brand_from_scraped_data E i data d =
     set_brand i
       (\<lambda>b. b \<lparr> brand_columns :=
                  map (\<lambda>k. (k, dget data k PNone)) (''name'' # fact_columns) @
                  [(''is_shopify_store'', dget data ''is_shopify_store'' (PBool False)),
                   (''updated_at'', utcnow E)] \<rparr>) d"

definition brand_to_dict :: "brand_row \<Rightarrow> pydict" where
  "brand_to_dict b =
     [(''id'', PInt (int (brand_id b))),
      (''name'', dget (brand_columns b) ''name'' PNone),
      (''website_url'', PStr (brand_website_url b)),
      (''domain'', PStr (brand_domain b))] @
     map (\<lambda>k. (k, dget (brand_columns b) k PNone)) fact_columns @
     [(''is_shopify_store'', dget (brand_columns b) ''is_shopify_store'' (PBool False)),
      (''scraping_status'', PStr (brand_scraping_status b)),
      (''created_at'', brand_created_at b),
      (''updated_at'', dget (brand_columns b) ''updated_at'' PNone),
      (''last_scraped'', brand_last_scraped b)]"

fun image_srcs :: "pyval list \<Rightarrow> exn + pyval list" where
  \<comment> \<open>\<open>[img.get('src') for img in images]\<close>\<close>
  "image_srcs [] = Inr []"
| "image_srcs (img # imgs) =
     exn_bind (py_get img ''src'' PNone) (\<lambda>src.
     exn_bind (image_srcs imgs) (\<lambda>srcs. Inr (src # srcs)))"

definition build_product :: "nat \<Rightarrow> pyval \<Rightarrow> exn + product_row" where
  \<comment> \<open>\<open>Product(brand_id=brand.id, ...)\<close> for one entry of the catalogue\<close>
  "build_product i product_data =
     (case product_data of
        PDict p \<Rightarrow>
          exn_bind (py_iter (dget p ''images'' (PList []))) (\<lambda>images.
          exn_bind (image_srcs images) (\<lambda>image_urls.
          Inr \<lparr> product_brand_id = i,
                product_columns =
                  [(''shopify_id'', dget p ''shopify_id'' PNone),
                   (''handle'', dget p ''handle'' PNone),
                   (''title'', dget p ''title'' PNone),
                   (''description'', dget p ''description'' PNone),
                   (''vendor'', dget p ''vendor'' PNone),
                   (''product_type'', dget p ''product_type'' PNone),
                   (''tags'', dget p ''tags'' PNone),
                   (''price'', dget p ''price'' PNone),
                   (''compare_at_price'', dget p ''compare_at_price'' PNone),
                   (''product_url'', dget p ''product_url'' PNone),
                   (''image_urls'', PList image_urls),
                   (''featured_image'', dget p ''featured_image'' PNone),
                   (''available'', dget p ''available'' (PBool True)),
                   (''variants'', dget p ''variants'' PNone)] \<rparr>))
      | _ \<Rightarrow> Inl (Exn AttributeError ''object has no attribute get''))"

fun build_products :: "nat \<Rightarrow> pyval list \<Rightarrow> exn + product_row list" where
  "build_products i [] = Inr []"
| "build_products i (product_data # rest) =
     exn_bind (build_product i product_data) (\<lambda>row.
     exn_bind (build_products i rest) (\<lambda>rows. Inr (row # rows)))"

definition catalog_rows :: "nat \<Rightarrow> pyval \<Rightarrow> exn + product_row list" where
  \<comment> \<open>the rows that \<open>_save_products\<close> builds from a catalogue, or the exception that stops it\<close>
  "catalog_rows i products_data = exn_bind (py_iter products_data) (build_products i)"

definition try_save_products :: "env \<Rightarrow> nat \<Rightarrow> pyval \<Rightarrow> db \<Rightarrow> exn + db" where
  \<comment> \<open>The body of the \<open>try\<close> of \<open>_save_products\<close>: the query that deletes the brand's
      products (it flushes the pending changes of the brand first), the loop that builds and
      adds the new products, and the commit.\<close>
  "try_save_products E i products_data d =
     exn_bind (flush E d) (\<lambda>d.
     (let d = d \<lparr> session := (session d)
                    \<lparr> product_rows :=
                        filter (\<lambda>p. product_brand_id p \<noteq> i) (product_rows (session d)) \<rparr> \<rparr>
      in exn_bind (catalog_rows i products_data) (\<lambda>rows.
         try_commit E (d \<lparr> session := (session d)
                              \<lparr> product_rows := product_rows (session d) @ rows \<rparr> \<rparr>))))"

definition save_products :: "env \<Rightarrow> nat \<Rightarrow> pyval \<Rightarrow> db \<Rightarrow> db" where
  \<comment> \<open>\<open>_save_products\<close>: on any exception of the body the handler rolls back, which also
      drops the changes made to the session before the call.\<close>
  "save_products E i products_data d =
     (case try_save_products E i products_data d of
        Inl e \<Rightarrow> rollback d
      | Inr d' \<Rightarrow> d')"

definition competitor_to_dict :: "competitor_row \<Rightarrow> pydict" where
  "competitor_to_dict c =
     [(''id'', PInt (int (competitor_id c))),
      (''brand_id'', PInt (int (competitor_brand_id c)))] @
     map (\<lambda>k. (k, dget (competitor_columns c) k PNone)) (''name'' # ''website_url'' # ''domain'' # fact_columns) @
     [(''estimated_revenue'', PNone),
      (''market_position'', PNone),
      (''is_shopify_store'', dget (competitor_columns c) ''is_shopify_store'' (PBool False)),
      (''scraping_status'', dget (competitor_columns c) ''scraping_status'' PNone),
      (''created_at'', competitor_created_at c),
      (''updated_at'', competitor_created_at c),
      (''last_scraped'', competitor_created_at c)]"

definition competitor_row_of :: "env \<Rightarrow> nat \<Rightarrow> nat \<Rightarrow> pydict \<Rightarrow> competitor_row" where
  \<comment> \<open>\<open>Competitor(brand_id=brand.id, name=competitor_data.get('name'), ...)\<close> with its id\<close>
  "competitor_row_of E i cid competitor_data =
     \<lparr> competitor_id = cid,
       competitor_brand_id = i,
       competitor_created_at = utcnow E,
       competitor_columns =
         map (\<lambda>k. (k, dget competitor_data k PNone))
           (''name'' # ''website_url'' # ''domain'' # fact_columns) @
         [(''is_shopify_store'', dget competitor_data ''is_shopify_store'' (PBool False)),
          (''scraping_status'', dget competitor_data ''scraping_status'' PNone),
          (''scraping_errors'', dget competitor_data ''scraping_errors'' PNone)] \<rparr>"

definition save_competitor :: "env \<Rightarrow> nat \<Rightarrow> pydict \<Rightarrow> db \<Rightarrow> competitor_row \<times> db" where
  \<comment> \<open>\<open>_save_competitor\<close>, called for a competitor whose scrape is completed: the columns
      \<open>name\<close>, \<open>website_url\<close> and \<open>domain\<close> of the new row are then strings, so the insert
      keeps the constraints of the schema and the commit goes through.\<close>
  "save_competitor E i competitor_data d =
     (let c = competitor_row_of E i (next_competitor_id (session d)) competitor_data
      in (c, commit (d \<lparr> session := (session d)
                           \<lparr> competitor_rows := competitor_rows (session d) @ [c],
                             next_competitor_id := Suc (next_competitor_id (session d)) \<rparr> \<rparr>)))"

text \<open>
  The loop of \<open>_analyze_competitors\<close> over the competitor URLs.  Only a competitor whose
  status is \<open>completed\<close> is saved and reported.  Nothing in the body of the \<open>try\<close> raises
  here (\<open>analyze_competitor\<close> catches every exception and the inserts keep the constraints
  of the schema), so the handler that returns \<open>[]\<close> has no case.
\<close>

fun analyze_competitors_loop ::
  "nat \<Rightarrow> env \<Rightarrow> nat \<Rightarrow> string list \<Rightarrow> db \<Rightarrow> nat \<Rightarrow> pyval list \<Rightarrow>
     (pyval list \<times> db \<times> event list) option" where
  "analyze_competitors_loop fuel E i [] d n competitors_data = Some (competitors_data, d, [])"
| "analyze_competitors_loop fuel E i (u # us) d n competitors_data =
     (case analyze_competitor fuel E u n of
        None \<Rightarrow> None
      | Some (competitor_data, evs) \<Rightarrow>
          (case (if dget competitor_data ''scraping_status'' PNone = PStr ''completed''
                 then (case save_competitor E i competitor_data d of
                         (competitor, d') \<Rightarrow>
                           analyze_competitors_loop fuel E i us d' (n + nreq evs)
                             (competitors_data @ [PDict (competitor_to_dict competitor)]))
                 else analyze_competitors_loop fuel E i us d (n + nreq evs) competitors_data) of
             None \<Rightarrow> None
           | Some (result, d'', evs') \<Rightarrow> Some (result, d'', evs @ evs')))"

definition analyze_competitors ::
  "nat \<Rightarrow> env \<Rightarrow> nat \<Rightarrow> db \<Rightarrow> nat \<Rightarrow> (pyval list \<times> db \<times> event list) option" where
  "analyze_competitors fuel E i d n = analyze_competitors_loop fuel E i find_competitors d n []"

definition save_analysis :: "env \<Rightarrow> nat \<Rightarrow> string \<Rightarrow> pyval \<Rightarrow> db \<Rightarrow> db" where
  \<comment> \<open>\<open>_save_analysis\<close>: the columns \<open>analysis_type\<close> and \<open>title\<close> of the new row are strings,
      so the commit goes through.\<close>
  "save_analysis E i analysis_type analysis_data d =
     (let brand_name =
            (case get_brand d i of
               None \<Rightarrow> PNone
             | Some b \<Rightarrow> dget (brand_columns b) ''name'' PNone);
          a = \<lparr> analysis_brand_id = i,
                analysis_columns =
                  [(''analysis_type'', PStr analysis_type),
                   (''title'',
                    PStr (py_title (map (\<lambda>c. if c = CHR ''_'' then CHR '' '' else c) analysis_type)
                          @ '' for '' @ format_value E brand_name)),
                   (''description'', PStr (''Automated '' @ analysis_type @ '' analysis'')),
                   (''results'', analysis_data),
                   (''analysis_status'', PStr ''completed'')] \<rparr>
      in commit (d \<lparr> session := (session d)
                       \<lparr> analysis_rows := analysis_rows (session d) @ [a] \<rparr> \<rparr>))"

definition stage_scraped :: "env \<Rightarrow> nat \<Rightarrow> pydict \<Rightarrow> db \<Rightarrow> db" where
  \<comment> \<open>Lines 58 to 67 of \<open>analyze_brand\<close>: update the brand, save the products when the
      catalogue is not empty, mark the brand \<open>completed\<close>.\<close>
  "stage_scraped E i processed_data d =
     (let d = update_brand_from_scraped_data E i processed_data d;
          d = (if truthy (dget processed_data ''product_catalog'' PNone)
               then save_products E i (dget processed_data ''product_catalog'' PNone) d
               else d)
      in set_brand i
           (\<lambda>b. b \<lparr> brand_scraping_status := ''completed'',
                     brand_last_scraped := utcnow E \<rparr>) d)"

text \<open>
  How a part of \<open>analyze_brand\<close> ends: it returns a dictionary, it raises an exception
  with the session in order, or one of its commits fails in the flush, which leaves the
  session in need of a rollback.
\<close>

datatype outcome = Returns pydict | Raises exn | Flush_fails exn

text \<open>
  The body of the \<open>try\<close> of \<open>analyze_brand\<close> from the call of \<open>scrape_store\<close> on, for the brand
  with id \<open>i\<close>, with the state of the database at its end.  After a failed flush the
  database has rolled the transaction back and the session holds what is committed.
\<close>

definition analyze_steps ::
  "nat \<Rightarrow> env \<Rightarrow> string \<Rightarrow> bool \<Rightarrow> nat \<Rightarrow> db \<Rightarrow> nat \<Rightarrow>
     (outcome \<times> db \<times> event list) option" where
  "analyze_steps fuel E website_url include_competitors i d n =
     (case scrape_store fuel E website_url n of
        None \<Rightarrow> None
      | Some (Inl e, evs) \<Rightarrow> Some (Raises e, d, evs)
      | Some (Inr scraped_data, evs) \<Rightarrow>
          if dget scraped_data ''scraping_status'' PNone = PStr ''failed'' then
            (case try_commit E
                    (set_brand i
                       (\<lambda>b. b \<lparr> brand_scraping_status := ''failed'',
                                 brand_scraping_errors :=
                                   dget scraped_data ''scraping_errors'' PNone \<rparr>) d) of
               Inl e \<Rightarrow> Some (Flush_fails e, rollback d, evs)
             | Inr d \<Rightarrow>
                 Some (Returns [(''error'', PStr ''Failed to scrape brand data''),
                                (''brand_id'', PInt (int i))], d, evs))
          else
            (case try_commit E (stage_scraped E i (process_brand_context E scraped_data) d) of
               Inl e \<Rightarrow>
                 Some (Flush_fails e,
                       rollback (stage_scraped E i (process_brand_context E scraped_data) d), evs)
             | Inr d \<Rightarrow>
                 (let brand_data = (case get_brand d i of None \<Rightarrow> [] | Some b \<Rightarrow> brand_to_dict b);
                      result = [(''brand_id'', PInt (int i)),
                                (''brand_data'', PDict brand_data),
                                (''analysis_status'', PStr ''completed'')]
                  in if include_competitors then
                       (case analyze_competitors fuel E i d (n + nreq evs) of
                          None \<Rightarrow> None
                        | Some (competitors_data, d, evs2) \<Rightarrow>
                            (let competitive_report =
                                   generate_competitive_report E brand_data competitors_data
                             in Some (Returns (result @
                                                [(''competitors'', PList competitors_data),
                                                 (''competitive_analysis'', competitive_report)]),
                                      save_analysis E i ''competitor_analysis'' competitive_report d,
                                      evs @ evs2)))
                     else Some (Returns result, d, evs))))"

definition upsert_brand :: "env \<Rightarrow> string \<Rightarrow> string \<Rightarrow> db \<Rightarrow> nat \<times> db" where
  \<comment> \<open>Lines 28 to 42 of \<open>analyze_brand\<close>: take the first brand of the domain or create one,
      assign its status, URL and domain.  The result is the id of the brand.\<close>
  "upsert_brand E website_url dmn d =
     (case find_brand d dmn of
        Some existing_brand \<Rightarrow>
          (brand_id existing_brand,
           set_brand (brand_id existing_brand)
             (\<lambda>b. b \<lparr> brand_scraping_status := ''in_progress'',
                       brand_website_url := website_url,
                       brand_domain := dmn \<rparr>) d)
      | None \<Rightarrow> add_brand E website_url dmn d)"

definition handler :: "env \<Rightarrow> nat \<Rightarrow> outcome \<Rightarrow> db \<Rightarrow> (exn + pydict) \<times> db" where
  \<comment> \<open>The end of \<open>analyze_brand\<close> once \<open>brand\<close> is bound.  For an exception, the handler
      marks the brand as failed, stores the text of the exception and commits, with no
      rollback before: after a failed flush this commit raises \<open>PendingRollbackError\<close>, which
      leaves \<open>analyze_brand\<close>.\<close>
  "handler E i out d =
     (case out of
        Returns result \<Rightarrow> (Inr result, d)
      | Raises e \<Rightarrow>
          (case try_commit E
                  (set_brand i
                     (\<lambda>b. b \<lparr> brand_scraping_status := ''failed'',
                               brand_scraping_errors := PStr (exn_str e) \<rparr>) d) of
             Inl e' \<Rightarrow> (Inl e', rollback d)
           | Inr d \<Rightarrow> (Inr [(''error'', PStr (exn_str e)), (''brand_id'', PInt (int i))], d))
      | Flush_fails e \<Rightarrow>
          (Inl (Exn PendingRollbackError (pending_rollback_text E (exn_str e))), d))"

text \<open>
  \<open>analyze_brand\<close>.  An exception of \<open>extract_domain\<close> is raised before \<open>brand\<close> is bound:
  the handler returns the error alone.  The result is the returned dictionary or the
  exception that leaves \<open>analyze_brand\<close>.
\<close>

definition analyze_brand ::
  "nat \<Rightarrow> env \<Rightarrow> string \<Rightarrow> bool \<Rightarrow> db \<Rightarrow> nat \<Rightarrow>
     ((exn + pydict) \<times> db \<times> event list) option" where
  "analyze_brand fuel E website_url include_competitors d n =
     (case extract_domain E website_url of
        Inl e \<Rightarrow> Some (Inr [(''error'', PStr (exn_str e))], d, [])
      | Inr dmn \<Rightarrow>
          (case upsert_brand E website_url dmn d of
             (i, d) \<Rightarrow>
               (case try_commit E d of
                  Inl e \<Rightarrow>
                    (case handler E i (Flush_fails e) (rollback d) of
                       (r, d) \<Rightarrow> Some (r, d, []))
                | Inr d \<Rightarrow>
                    (case analyze_steps fuel E website_url include_competitors i d n of
                       None \<Rightarrow> None
                     | Some (out, d, evs) \<Rightarrow>
                         (case handler E i out d of (r, d) \<Rightarrow> Some (r, d, evs))))))"


definition db_ok :: "db \<Rightarrow> bool" where
  \<comment> \<open>A database between two requests: nothing pending in the session, and the ids of the
      brands are distinct and below the next id (the primary key).\<close>
  "db_ok d =
     (committed d = session d \<and>
      distinct (map brand_id (brand_rows (session d))) \<and>
      list_all (\<lambda>b. brand_id b < next_brand_id (session d)) (brand_rows (session d)))"

definition brand_index :: "db \<Rightarrow> (string \<times> nat) list" where
  \<comment> \<open>the domain and the id of each brand, in the order of the table\<close>
  "brand_index d = map (\<lambda>b. (brand_domain b, brand_id b)) (brand_rows (session d))"

fun competitor_runs ::
  "nat \<Rightarrow> env \<Rightarrow> string list \<Rightarrow> nat \<Rightarrow> (pydict \<times> event list) list option" where
  \<comment> \<open>\<open>analyze_competitor\<close> run on each URL in turn: what each run returns and does.\<close>
  "competitor_runs fuel E [] n = Some []"
| "competitor_runs fuel E (u # us) n =
     (case analyze_competitor fuel E u n of
        None \<Rightarrow> None
      | Some (competitor_data, evs) \<Rightarrow>
          (case competitor_runs fuel E us (n + nreq evs) of
             None \<Rightarrow> None
           | Some runs \<Rightarrow> Some ((competitor_data, evs) # runs)))"

definition completed :: "pydict \<Rightarrow> bool" where
  "completed competitor_data = (dget competitor_data ''scraping_status'' PNone = PStr ''completed'')"

fun numbered_rows :: "env \<Rightarrow> nat \<Rightarrow> nat \<Rightarrow> pydict list \<Rightarrow> competitor_row list" where
  \<comment> \<open>the rows of the given competitors, with consecutive ids from \<open>cid\<close> on\<close>
  "numbered_rows E i cid [] = []"
| "numbered_rows E i cid (competitor_data # rest) =
     competitor_row_of E i cid competitor_data # numbered_rows E i (Suc cid) rest"



fun save_all :: "env \<Rightarrow> nat \<Rightarrow> pydict list \<Rightarrow> db \<Rightarrow> db" where
  \<comment> \<open>the database after \<open>_save_competitor\<close> for each of the given competitors in turn\<close>
  "save_all E i [] d = d"
| "save_all E i (competitor_data # rest) d =
     save_all E i rest (snd (save_competitor E i competitor_data d))"

section \<open>Example environments\<close>

definition env0 :: env where
  \<comment> \<open>No host answers.  \<open>urljoin\<close> here is right for a base \<open>scheme://host\<close> and a reference
      that starts with a slash; \<open>charref\<close> here is right for text without references.\<close>
  "env0 =
     \<lparr> http = (\<lambda>n u. Inl (Exn RequestException ''connection refused'')),
       py_int = (\<lambda>s. Inl (Exn ValueError ''invalid literal for int()'')),
       json_loads = (\<lambda>s. Inl (Exn JSONDecodeError ''Expecting value'')),
       urljoin = (\<lambda>b r. Inr (b @ r)),
       charref = (\<lambda>s. s),
       py_format = (\<lambda>v. ''[]''),
       findall_email = (\<lambda>s. []),
       findall_phone = (\<lambda>s. []),
       list_of_set = (\<lambda>xs. rev (remdups xs)),
       check_bracketed_host = (\<lambda>h. Some (Exn ValueError ''does not appear to be an IPv4 or IPv6 address'')),
       checknetloc = (\<lambda>n. None),
       parse_html = (\<lambda>s. Inr (Tag ''[document]'' [] [NavigableString s])),
       pass_social_handles = (\<lambda>s. Inr (PDict [])),
       pass_important_links = (\<lambda>s u. Inr (PDict [])),
       pass_faqs = (\<lambda>d u. Inr (PList [])),
       pass_hero_products = (\<lambda>d u. Inr (PList [])),
       llm_analysis = (\<lambda>d. None),
       generate_competitive_report = (\<lambda>b cs. PDict []),
       utcnow = PStr ''2024-01-01T00:00:00'',
       db_error_text = (\<lambda>c. c),
       pending_rollback_text = (\<lambda>t. ''Original exception was: '' @ t) \<rparr>"



definition env_shop :: env where
  \<comment> \<open>A shop whose catalogue has one product: page 1 holds it, every other page is empty.
      \<open>json_loads\<close> here is \<open>json.loads\<close> on the two bodies served.\<close>
  \<open>env_shop =
     env0 \<lparr> http := (\<lambda>n u.
               if u = ''https://shop.example/products.json?limit=250&page=1'' then
                 Inr \<lparr> status_code = 200, reason = ''OK'', url = u, headers = [],
                       resp_text = ''{"products": [{"id": 1, "title": "Socks", "handle": "socks"}]}'' \<rparr>
               else
                 Inr \<lparr> status_code = 200, reason = ''OK'', url = u, headers = [],
                       resp_text = ''{"products": []}'' \<rparr>),
            json_loads := (\<lambda>s.
               if s = ''{"products": [{"id": 1, "title": "Socks", "handle": "socks"}]}'' then
                 Inr (PDict [(''products'',
                        PList [PDict [(''id'', PInt 1), (''title'', PStr ''Socks''),
                                      (''handle'', PStr ''socks'')]])])
               else if s = ''{"products": []}'' then Inr (PDict [(''products'', PList [])])
               else Inl (Exn JSONDecodeError ''Expecting value'')) \<rparr>\<close>

definition env_mail :: env where
  \<comment> \<open>A page that names two addresses; \<open>findall_email\<close> here is the scan of that page.\<close>
  "env_mail =
     env0 \<lparr> findall_email := (\<lambda>s.
               if s = ''<p>Write to info@shop.example or sales@shop.example</p>''
               then [''info@shop.example'', ''sales@shop.example''] else []) \<rparr>"





definition env_rivals :: env where
  \<comment> \<open>\<open>gymshark.com\<close> does not answer; every other host serves one small page, and
      \<open>parse_html\<close> here is the parse of that page.\<close>
  "env_rivals =
     env0 \<lparr> http := (\<lambda>n u.
               if u = ''https://gymshark.com''
               then Inl (Exn RequestException ''connection refused'')
               else Inr \<lparr> status_code = 200, reason = ''OK'', url = u, headers = [],
                          resp_text = ''<html><head><title>Shop</title></head></html>'' \<rparr>),
            parse_html := (\<lambda>s.
               Inr (Tag ''[document]'' []
                      [Tag ''html'' []
                         [Tag ''head'' [] [Tag ''title'' [] [NavigableString ''Shop'']]]])) \<rparr>"

definition empty_tables :: tables where
  "empty_tables =
     \<lparr> brand_rows = [], product_rows = [], competitor_rows = [], analysis_rows = [],
       next_brand_id = 1, next_competitor_id = 1 \<rparr>"

definition empty_db :: db where
  "empty_db = \<lparr> committed = empty_tables, session = empty_tables \<rparr>"

definition gymshark_failed :: pydict where
  \<comment> \<open>what \<open>analyze_competitor\<close> returns for \<open>gymshark.com\<close> in \<open>env_rivals\<close>\<close>
  "gymshark_failed =
     [(''website_url'', PStr ''https://gymshark.com''),
      (''domain'', PStr ''gymshark.com''),
      (''is_shopify_store'', PBool False),
      (''scraping_status'', PStr ''failed''),
      (''scraping_errors'', PStr ''Failed to fetch https://gymshark.com: connection refused'')]"

definition allbirds_completed :: pydict where
  \<comment> \<open>what \<open>analyze_competitor\<close> returns for \<open>allbirds.com\<close> in \<open>env_rivals\<close>\<close>
  "allbirds_completed =
     [(''website_url'', PStr ''https://allbirds.com''),
      (''domain'', PStr ''allbirds.com''),
      (''is_shopify_store'', PBool False),
      (''scraping_status'', PStr ''completed''), (''scraping_errors'', PNone),
      (''name'', PStr ''Shop''), (''brand_context'', PStr []),
      (''social_handles'', PDict []), (''important_links'', PDict []),
      (''privacy_policy_url'', PNone), (''privacy_policy_text'', PStr []),
      (''return_policy_url'', PNone), (''return_policy_text'', PStr []),
      (''refund_policy_url'', PNone), (''refund_policy_text'', PStr []),
      (''faqs'', PList []), (''hero_products'', PList []),
      (''competitor_analysis'',
       PDict
        [(''strengths'', PList []),
         (''weaknesses'',
          PList
           [PStr ''Limited product range'',
            PStr ''Limited social media presence'',
            PStr ''Limited customer support information'',
            PStr ''Incomplete policy information'']),
         (''opportunities'', PList []), (''threats'', PList [])])]"

definition env_store :: env where
  \<comment> \<open>A shop on the platform's own domain: its home page, one product on page 1 of the
      catalogue, and empty pages after it.\<close>
  \<open>env_store =
     env_rivals \<lparr> http := (\<lambda>n u.
               if u = ''https://shop.myshopify.com/products.json?limit=250&page=1'' then
                 Inr \<lparr> status_code = 200, reason = ''OK'', url = u, headers = [],
                       resp_text = ''{"products": [{"id": 1, "title": "Socks", "handle": "socks"}]}'' \<rparr>
               else if u = ''https://shop.myshopify.com'' then
                 Inr \<lparr> status_code = 200, reason = ''OK'', url = u, headers = [],
                       resp_text = ''<html><head><title>Shop</title></head></html>'' \<rparr>
               else
                 Inr \<lparr> status_code = 200, reason = ''OK'', url = u, headers = [],
                       resp_text = ''{"products": []}'' \<rparr>),
            json_loads := json_loads env_shop \<rparr>\<close>






definition twin_tables :: tables where
  \<comment> \<open>Two brands of one domain are in the table, under two URLs.\<close>
  "twin_tables =
     \<lparr> brand_rows =
         [\<lparr> brand_id = 1, brand_website_url = ''https://shop.myshopify.com'',
             brand_domain = ''shop.myshopify.com'', brand_scraping_status = ''pending'',
             brand_scraping_errors = PNone, brand_last_scraped = PStr ''2023-12-31T00:00:00'',
             brand_created_at = PStr ''2023-12-31T00:00:00'',
             brand_columns = [(''name'', PStr ''Shop'')] \<rparr>,
          \<lparr> brand_id = 2, brand_website_url = ''https://shop.myshopify.com/en'',
             brand_domain = ''shop.myshopify.com'', brand_scraping_status = ''pending'',
             brand_scraping_errors = PNone, brand_last_scraped = PStr ''2023-12-31T00:00:00'',
             brand_created_at = PStr ''2023-12-31T00:00:00'',
             brand_columns = [(''name'', PStr ''Shop'')] \<rparr>],
       product_rows = [], competitor_rows = [], analysis_rows = [],
       next_brand_id = 3, next_competitor_id = 1 \<rparr>"

definition twin_db :: db where
  "twin_db = \<lparr> committed = twin_tables, session = twin_tables \<rparr>"






section \<open>Properties of \<open>truncate_text\<close>\<close>

lemma rfind_acc_notin: "c \<notin> set xs \<Longrightarrow> rfind_acc c xs i best = best"
  by (induction xs arbitrary: i best) auto

lemma rfind_acc_append:
  "rfind_acc c (xs @ ys) i best = rfind_acc c ys (i + int (length xs)) (rfind_acc c xs i best)"
  by (induction xs arbitrary: i best) (auto simp: algebra_simps)

lemma py_rfind_none: "c \<notin> set xs \<Longrightarrow> py_rfind xs c = - 1"
  by (simp add: py_rfind_def rfind_acc_notin)

lemma py_rfind_last:
  assumes "p < length xs" "xs ! p = c" "\<forall>q. p < q \<and> q < length xs \<longrightarrow> xs ! q \<noteq> c"
  shows "py_rfind xs c = int p"
proof -
  have split: "xs = take p xs @ c # drop (Suc p) xs"
    using id_take_nth_drop [OF assms(1)] assms(2) by metis
  have "c \<notin> set (drop (Suc p) xs)"
  proof
    assume "c \<in> set (drop (Suc p) xs)"
    then obtain j where j: "j < length (drop (Suc p) xs)" "drop (Suc p) xs ! j = c"
      by (auto simp: in_set_conv_nth)
    then have "Suc p + j < length xs" "xs ! (Suc p + j) = c" by auto
    with assms(3) show False by (metis less_add_Suc1 add_Suc)
  qed
  then have "rfind_acc c (take p xs @ c # drop (Suc p) xs) 0 (- 1) = int p"
    using assms(1) by (simp add: rfind_acc_append rfind_acc_notin min_def)
  with split show ?thesis by (simp add: py_rfind_def)
qed

text \<open>
  Claim C9.  For every string \<open>s\<close> and limit \<open>L\<close> (a length, so \<open>0 \<le> L\<close>): when \<open>s\<close> is
  empty or no longer than \<open>L\<close>, \<open>truncate_text s L\<close> is \<open>s\<close> unchanged.  Otherwise the
  result is the first \<open>L\<close> characters of \<open>s\<close>, cut back to the last space among them when
  that space sits at an index strictly greater than \<open>0.8 * L\<close>, followed by the marker
  \<open>...\<close>; when no space sits beyond \<open>0.8 * L\<close> the first \<open>L\<close> characters are kept whole.
\<close>

theorem truncate_text_spec:
  assumes "0 \<le> L"
  shows "(s = [] \<or> int (length s) \<le> L \<longrightarrow> truncate_text s L = s) \<and>
         (s \<noteq> [] \<and> int (length s) > L \<longrightarrow>
           (\<forall>p. p < nat L \<and> s ! p = CHR '' '' \<and> 5 * int p > 4 * L \<and>
                  (\<forall>q. p < q \<and> q < nat L \<longrightarrow> s ! q \<noteq> CHR '' '')
                \<longrightarrow> truncate_text s L = take p s @ ''...'') \<and>
           ((\<forall>p. p < nat L \<and> s ! p = CHR '' '' \<longrightarrow> 5 * int p \<le> 4 * L)
                \<longrightarrow> truncate_text s L = take (nat L) s @ ''...''))"
proof (rule conjI)
  show "s = [] \<or> int (length s) \<le> L \<longrightarrow> truncate_text s L = s"
    by (simp add: truncate_text_def)
next
  show "s \<noteq> [] \<and> int (length s) > L \<longrightarrow>
           (\<forall>p. p < nat L \<and> s ! p = CHR '' '' \<and> 5 * int p > 4 * L \<and>
                  (\<forall>q. p < q \<and> q < nat L \<longrightarrow> s ! q \<noteq> CHR '' '')
                \<longrightarrow> truncate_text s L = take p s @ ''...'') \<and>
           ((\<forall>p. p < nat L \<and> s ! p = CHR '' '' \<longrightarrow> 5 * int p \<le> 4 * L)
                \<longrightarrow> truncate_text s L = take (nat L) s @ ''...'')"
  proof (intro impI conjI allI)
    fix p
    assume long: "s \<noteq> [] \<and> int (length s) > L"
    assume p: "p < nat L \<and> s ! p = CHR '' '' \<and> 5 * int p > 4 * L \<and>
                  (\<forall>q. p < q \<and> q < nat L \<longrightarrow> s ! q \<noteq> CHR '' '')"
    let ?t = "take (nat L) s"
    have len: "length ?t = nat L" using long assms by (auto simp: min_def)
    have "py_rfind ?t CHR '' '' = int p"
      using p len by (intro py_rfind_last) auto
    moreover have "take p ?t = take p s" using p by (simp add: min_def)
    ultimately show "truncate_text s L = take p s @ ''...''"
      using long assms p by (simp add: truncate_text_def py_slice_to_def Let_def)
  next
    assume long: "s \<noteq> [] \<and> int (length s) > L"
    assume far: "\<forall>p. p < nat L \<and> s ! p = CHR '' '' \<longrightarrow> 5 * int p \<le> 4 * L"
    let ?t = "take (nat L) s"
    have len: "length ?t = nat L" using long assms by (auto simp: min_def)
    show "truncate_text s L = take (nat L) s @ ''...''"
    proof (cases "CHR '' '' \<in> set ?t")
      case False
      then have "py_rfind ?t CHR '' '' = - 1" by (rule py_rfind_none)
      then show ?thesis
        using long assms by (simp add: truncate_text_def py_slice_to_def Let_def)
    next
      case True
      define P where "P = (\<lambda>i. i < nat L \<and> ?t ! i = CHR '' '')"
      from True obtain i where "P i"
        unfolding P_def using len by (auto simp: in_set_conv_nth)
      moreover have "\<forall>i. P i \<longrightarrow> i \<le> nat L" by (simp add: P_def)
      ultimately have G: "P (Greatest P)" "\<forall>j. P j \<longrightarrow> j \<le> Greatest P"
        using GreatestI_nat [of P i "nat L"] Greatest_le_nat [of P _ "nat L"] by auto
      define p where "p = Greatest P"
      have pp: "p < nat L" "?t ! p = CHR '' ''" using G(1) by (auto simp: P_def p_def)
      have "\<forall>q. p < q \<and> q < length ?t \<longrightarrow> ?t ! q \<noteq> CHR '' ''"
        using G(2) len unfolding P_def p_def by (metis not_le)
      then have r: "py_rfind ?t CHR '' '' = int p"
        using pp len by (intro py_rfind_last) auto
      have "s ! p = CHR '' ''" using pp by simp
      with far pp have "5 * int p \<le> 4 * L" by blast
      with r show ?thesis
        using long assms by (simp add: truncate_text_def py_slice_to_def Let_def)
    qed
  qed
qed

theorem truncate_text_spec_witness:
  "(0::int) \<le> 12 \<and> int (length ''hello world foo'') > 12 \<and>
   truncate_text ''hello world foo'' 12 = ''hello world...'' \<and>
   truncate_text ''hello'' 12 = ''hello''"
proof -
  have h: "(0::int) \<le> 12" by simp
  note t = truncate_text_spec [OF h, of "''hello world foo''"]
  from t have "\<forall>p. p < nat 12 \<and> ''hello world foo'' ! p = CHR '' '' \<and> 5 * int p > 4 * 12 \<and>
                  (\<forall>q. p < q \<and> q < nat 12 \<longrightarrow> ''hello world foo'' ! q \<noteq> CHR '' '')
                \<longrightarrow> truncate_text ''hello world foo'' 12 = take p ''hello world foo'' @ ''...''"
    by simp
  then have "11 < nat 12 \<and> ''hello world foo'' ! 11 = CHR '' '' \<and> 5 * int 11 > 4 * 12 \<and>
                  (\<forall>q. 11 < q \<and> q < nat 12 \<longrightarrow> ''hello world foo'' ! q \<noteq> CHR '' '')
                \<longrightarrow> truncate_text ''hello world foo'' 12 = take 11 ''hello world foo'' @ ''...''"
    by (rule spec)
  then have a: "truncate_text ''hello world foo'' 12 = ''hello world...''" by simp
  have b: "truncate_text ''hello'' 12 = ''hello''"
    using truncate_text_spec [OF h, of "''hello''"] by simp
  from a b show ?thesis by simp
qed


section \<open>Properties of \<open>_fetch_page\<close>\<close>

lemma get_checked_status:
  "get_checked E n u = Inr r \<Longrightarrow> \<not> (400 \<le> status_code r \<and> status_code r < 600)"
  by (auto simp: get_checked_def raise_for_status_def split: sum.splits if_splits)

lemma get_checked_not_429: "get_checked E n u = Inr r \<Longrightarrow> status_code r \<noteq> 429"
  using get_checked_status by fastforce

text \<open>
  \<open>raise_for_status\<close> runs before the test \<open>status_code == 429\<close>, and it raises on 429:
  the rate-limit branch of the loop is never entered.
\<close>

lemma fetch_attempts_Cons:
  "fetch_attempts E u (attempt # rest) n =
     (case get_checked E n u of
        Inr r \<Rightarrow> (Inr (Some (resp_text r)), [Request u])
      | Inl e \<Rightarrow>
          if is_request_exception e then
            if attempt = MAX_RETRIES - 1 then (Inl (network_error u e), [Request u])
            else
              (case fetch_attempts E u rest (Suc n) of
                 (res, evs) \<Rightarrow>
                   (res, Request u # Sleep (DELAY_BETWEEN_REQUESTS * 2 ^ attempt) # evs))
          else (Inl e, [Request u]))"
  by (auto simp: get_checked_not_429 split: sum.splits)

lemma nreq_simps [simp]:
  "nreq [] = 0" "nreq (Request u # evs) = Suc (nreq evs)" "nreq (Sleep t # evs) = nreq evs"
  by (simp_all add: nreq_def)

lemma nreq_append [simp]: "nreq (xs @ ys) = nreq xs + nreq ys"
  by (simp add: nreq_def)


lemma snd_fetch_page: "snd (fetch_page E u n) = snd (fetch_attempts E u [0..<MAX_RETRIES] n)"
  by (auto simp: fetch_page_def split: prod.splits sum.splits)

lemma upt_MAX_RETRIES: "[0..<MAX_RETRIES] = [0, 1, 2]"
  by (simp add: MAX_RETRIES_def upt_rec)

lemma fetch_page_shape:
  "snd (fetch_page E u n) \<in>
     {[Request u],
      [Request u, Sleep (DELAY_BETWEEN_REQUESTS * 2 ^ 0), Request u],
      [Request u, Sleep (DELAY_BETWEEN_REQUESTS * 2 ^ 0), Request u,
       Sleep (DELAY_BETWEEN_REQUESTS * 2 ^ 1), Request u]}"
  unfolding snd_fetch_page upt_MAX_RETRIES
  by (auto simp: fetch_attempts_Cons MAX_RETRIES_def simp del: fetch_attempts.simps
      split: sum.splits prod.splits)


lemma fetch_page_never_None: "fst (fetch_page E u n) \<noteq> Inr None"
  unfolding fetch_page_def upt_MAX_RETRIES
  by (auto simp: fetch_attempts_Cons MAX_RETRIES_def simp del: fetch_attempts.simps
      split: sum.splits prod.splits)








section \<open>Properties of \<open>_get_product_catalog\<close>\<close>

lemma serves_page_fetch:
  assumes "serves_page E n u ps"
  shows "\<exists>t. fetch_page E u n = (Inr (Some t), [Request u]) \<and>
             (\<exists>d. json_loads E t = Inr (PDict d) \<and> map_of d ''products'' = Some (PList ps))"
proof -
  from assms obtain r d where r: "get_checked E n u = Inr r"
    and d: "json_loads E (resp_text r) = Inr (PDict d)" "map_of d ''products'' = Some (PList ps)"
    by (auto simp: serves_page_def split: sum.splits pyval.splits)
  have "fetch_page E u n = (Inr (Some (resp_text r)), [Request u])"
    unfolding fetch_page_def upt_MAX_RETRIES using r
    by (simp add: fetch_attempts_Cons del: fetch_attempts.simps)
  with d show ?thesis by blast
qed

lemma add_products_ok:
  "\<forall>p \<in> set ps. \<exists>d. product_data_of E w p = Inr d \<Longrightarrow>
   add_products E w ps acc = (None, acc @ map (normalised E w) ps)"
  by (induction ps arbitrary: acc) (auto simp: normalised_def)

lemma catalog_loop_pages:
  assumes "\<forall>k < length pages.
         serves_page E (n + k) (paginated_url purl (pg + k)) (pages ! k) \<and>
         pages ! k \<noteq> [] \<and>
         (\<forall>p \<in> set (pages ! k). \<exists>d. product_data_of E w p = Inr d)"
    and "serves_page E (n + length pages) (paginated_url purl (pg + length pages)) []"
    and "length pages < fuel"
  shows "catalog_loop fuel E purl w pg n acc =
     Some (acc @ map (normalised E w) (concat pages),
           concat (map (\<lambda>k. [Request (paginated_url purl (pg + k)), Sleep DELAY_BETWEEN_REQUESTS])
                     [0..<length pages])
           @ [Request (paginated_url purl (pg + length pages))])"
  using assms
proof (induction pages arbitrary: fuel n pg acc)
  case Nil
  then obtain f where f: "fuel = Suc f" by (cases fuel) auto
  from Nil(2) obtain t d where
    "fetch_page E (paginated_url purl pg) n = (Inr (Some t), [Request (paginated_url purl pg)])"
    "json_loads E t = Inr (PDict d)" "map_of d ''products'' = Some (PList [])"
    using serves_page_fetch [of E n "paginated_url purl pg" "[]"] by auto
  then show ?case by (simp add: f py_get_def dget_def)
next
  case (Cons P pages)
  then obtain f where f: "fuel = Suc f" "length pages < f" by (cases fuel) auto
  from Cons.prems(1) have P: "serves_page E n (paginated_url purl pg) P" "P \<noteq> []"
    "\<forall>p \<in> set P. \<exists>d. product_data_of E w p = Inr d"
    by force+
  from P(1) obtain t d where t:
    "fetch_page E (paginated_url purl pg) n = (Inr (Some t), [Request (paginated_url purl pg)])"
    "json_loads E t = Inr (PDict d)" "map_of d ''products'' = Some (PList P)"
    using serves_page_fetch [of E n "paginated_url purl pg" P] by auto
  have rest: "\<forall>k < length pages.
         serves_page E (Suc n + k) (paginated_url purl (Suc pg + k)) (pages ! k) \<and>
         pages ! k \<noteq> [] \<and>
         (\<forall>p \<in> set (pages ! k). \<exists>d. product_data_of E w p = Inr d)"
  proof (intro allI impI)
    fix k assume "k < length pages"
    then have "Suc k < length (P # pages)" by simp
    from Cons.prems(1) [rule_format, OF this] show
      "serves_page E (Suc n + k) (paginated_url purl (Suc pg + k)) (pages ! k) \<and>
         pages ! k \<noteq> [] \<and>
         (\<forall>p \<in> set (pages ! k). \<exists>d. product_data_of E w p = Inr d)"
      by simp
  qed
  have last: "serves_page E (Suc n + length pages) (paginated_url purl (Suc pg + length pages)) []"
    using Cons.prems(2) by simp
  note IH = Cons.IH [OF rest last f(2), of "acc @ map (normalised E w) P"]
  show ?case
    using t P(2) IH
    by (simp add: f py_get_def dget_def py_iter_def add_products_ok [OF P(3)] map_upt_Suc
        del: upt_Suc)
qed

lemma requests_append [simp]: "requests (xs @ ys) = requests xs @ requests ys"
  by (induction xs rule: requests.induct) auto

lemma fetch_page_requests:
  "\<exists>c. 1 \<le> c \<and> c \<le> MAX_RETRIES \<and> requests (snd (fetch_page E u n)) = replicate c u"
proof -
  consider "snd (fetch_page E u n) = [Request u]"
    | "snd (fetch_page E u n) = [Request u, Sleep (DELAY_BETWEEN_REQUESTS * 2 ^ 0), Request u]"
    | "snd (fetch_page E u n) = [Request u, Sleep (DELAY_BETWEEN_REQUESTS * 2 ^ 0), Request u,
         Sleep (DELAY_BETWEEN_REQUESTS * 2 ^ 1), Request u]"
    using fetch_page_shape [of E u n] by blast
  then show ?thesis
  proof cases
    case 1
    then have "1 \<le> (1::nat) \<and> 1 \<le> MAX_RETRIES \<and> requests (snd (fetch_page E u n)) = replicate 1 u"
      by (simp add: MAX_RETRIES_def)
    then show ?thesis by blast
  next
    case 2
    then have "1 \<le> (2::nat) \<and> 2 \<le> MAX_RETRIES \<and> requests (snd (fetch_page E u n)) = replicate 2 u"
      by (simp add: MAX_RETRIES_def numeral_2_eq_2)
    then show ?thesis by blast
  next
    case 3
    then have "1 \<le> (3::nat) \<and> 3 \<le> MAX_RETRIES \<and> requests (snd (fetch_page E u n)) = replicate 3 u"
      by (simp add: MAX_RETRIES_def numeral_3_eq_3)
    then show ?thesis by blast
  qed
qed

lemma catalog_loop_step:
  assumes "catalog_loop (Suc fuel) E purl w pg n acc = Some (res, evs)"
  shows "evs = snd (fetch_page E (paginated_url purl pg) n) \<or>
         (\<exists>acc' evs'. catalog_loop fuel E purl w (Suc pg)
                          (n + nreq (snd (fetch_page E (paginated_url purl pg) n))) acc'
                        = Some (res, evs') \<and>
            evs = snd (fetch_page E (paginated_url purl pg) n) @ Sleep DELAY_BETWEEN_REQUESTS # evs')"
  using assms
  by (auto split: prod.splits sum.splits option.splits if_splits)

lemma catalog_loop_requests:
  "catalog_loop fuel E purl w pg n acc = Some (res, evs) \<Longrightarrow>
   \<exists>cs. cs \<noteq> [] \<and> (\<forall>c \<in> set cs. 1 \<le> c \<and> c \<le> MAX_RETRIES) \<and>
        requests evs =
          concat (map (\<lambda>k. replicate (cs ! k) (paginated_url purl (pg + k))) [0..<length cs])"
proof (induction fuel arbitrary: pg n acc res evs)
  case 0
  then show ?case by simp
next
  case (Suc fuel)
  let ?u = "paginated_url purl pg"
  let ?evs1 = "snd (fetch_page E ?u n)"
  obtain c where c: "1 \<le> c" "c \<le> MAX_RETRIES" "requests ?evs1 = replicate c ?u"
    using fetch_page_requests [of E ?u n] by blast
  from catalog_loop_step [OF Suc.prems] show ?case
  proof
    assume "evs = ?evs1"
    with c have "[c] \<noteq> [] \<and> (\<forall>x \<in> set [c]. 1 \<le> x \<and> x \<le> MAX_RETRIES) \<and>
        requests evs =
          concat (map (\<lambda>k. replicate ([c] ! k) (paginated_url purl (pg + k))) [0..<length [c]])"
      by simp
    then show ?thesis by blast
  next
    assume "\<exists>acc' evs'. catalog_loop fuel E purl w (Suc pg) (n + nreq ?evs1) acc'
                        = Some (res, evs') \<and>
            evs = ?evs1 @ Sleep DELAY_BETWEEN_REQUESTS # evs'"
    then obtain acc' evs' where
      r: "catalog_loop fuel E purl w (Suc pg) (n + nreq ?evs1) acc' = Some (res, evs')"
      and e: "evs = ?evs1 @ Sleep DELAY_BETWEEN_REQUESTS # evs'"
      by blast
    from Suc.IH [OF r] obtain cs where cs: "cs \<noteq> []" "\<forall>c \<in> set cs. 1 \<le> c \<and> c \<le> MAX_RETRIES"
      "requests evs' =
          concat (map (\<lambda>k. replicate (cs ! k) (paginated_url purl (Suc pg + k))) [0..<length cs])"
      by blast
    have "c # cs \<noteq> [] \<and> (\<forall>x \<in> set (c # cs). 1 \<le> x \<and> x \<le> MAX_RETRIES) \<and>
        requests evs =
          concat (map (\<lambda>k. replicate ((c # cs) ! k) (paginated_url purl (pg + k)))
                    [0..<length (c # cs)])"
      using c cs e by (simp add: map_upt_Suc del: upt_Suc)
    then show ?thesis by blast
  qed
qed

lemma env_shop_full_pages:
  \<open>full_pages env_shop ''https://shop.example/products.json'' ''https://shop.example'' 0
     [[PDict [(''id'', PInt 1), (''title'', PStr ''Socks''), (''handle'', PStr ''socks'')]]]\<close>
proof -
  have p: "\<And>k. paginated_url ''https://shop.example/products.json'' (Suc k)
             = ''https://shop.example/products.json?limit=250&page='' @ str_int (int (Suc k))"
    by (simp add: paginated_url_def str_int_def digit_char_def)
  show ?thesis
    unfolding full_pages_def
    by (simp add: p serves_page_def get_checked_def raise_for_status_def env_shop_def env0_def
        str_int_def digit_char_def product_data_of_def clean_text_val_def dget_def
        format_value_def tags_of_def Let_def)
qed

lemma env_shop_catalog:
  \<open>get_product_catalog 3 env_shop ''https://shop.example'' 0 =
     Some ([PDict
             [(''shopify_id'', PInt 1), (''title'', PStr ''Socks''),
              (''handle'', PStr ''socks''), (''description'', PStr []),
              (''vendor'', PNone), (''product_type'', PNone), (''tags'', PList []),
              (''product_url'', PStr ''https://shop.example/products/socks''),
              (''created_at'', PNone), (''updated_at'', PNone),
              (''available'', PBool True), (''variants'', PList []),
              (''images'', PList []), (''options'', PList [])]],
           [Request ''https://shop.example/products.json?limit=250&page=1'',
            Sleep 1,
            Request ''https://shop.example/products.json?limit=250&page=2''])\<close>
  by code_simp

text \<open>
  Claim C3, as stated, fails in its last part.  A shop serves one full page (\<open>N = 1\<close>) and
  then an empty page: the products of the one page are returned, and the request number
  \<open>N + 1 = 2\<close>, for page 2, is issued: it is the request that finds the empty page.
\<close>

theorem catalog_request_counterexample:
  \<open>full_pages env_shop ''https://shop.example/products.json'' ''https://shop.example'' 0
     [[PDict [(''id'', PInt 1), (''title'', PStr ''Socks''), (''handle'', PStr ''socks'')]]] \<and>
   get_product_catalog 3 env_shop ''https://shop.example'' 0 =
     Some ([PDict
             [(''shopify_id'', PInt 1), (''title'', PStr ''Socks''),
              (''handle'', PStr ''socks''), (''description'', PStr []),
              (''vendor'', PNone), (''product_type'', PNone), (''tags'', PList []),
              (''product_url'', PStr ''https://shop.example/products/socks''),
              (''created_at'', PNone), (''updated_at'', PNone),
              (''available'', PBool True), (''variants'', PList []),
              (''images'', PList []), (''options'', PList [])]],
           [Request ''https://shop.example/products.json?limit=250&page=1'',
            Sleep 1,
            Request ''https://shop.example/products.json?limit=250&page=2''])\<close>
  using env_shop_full_pages env_shop_catalog by simp

text \<open>
  Claim C3, amended.  The catalogue loop requests the pages in increasing order, starting
  at page 1 and with \<open>limit=250\<close>: the URLs requested are those of pages
  \<open>1, 2, 3, \<dots>\<close>, each between one and \<open>MAX_RETRIES\<close> times in a row.  For an endpoint that
  serves \<open>N\<close> full pages and then one empty page, the loop ends at the empty page: it
  returns the products of exactly the \<open>N\<close> full pages, it makes exactly \<open>N + 1\<close> requests,
  for pages \<open>1\<close> to \<open>N + 1\<close> in this order with the delay between them, and it makes no
  request for page \<open>N + 2\<close>.
\<close>

theorem catalog_pagination:
  "urljoin E website_url ''/products.json'' = Inr products_url \<longrightarrow>
   (get_product_catalog fuel E website_url n = Some (res, evs) \<longrightarrow>
      (\<exists>cs. cs \<noteq> [] \<and> (\<forall>c \<in> set cs. 1 \<le> c \<and> c \<le> MAX_RETRIES) \<and>
         requests evs =
           concat (map (\<lambda>k. replicate (cs ! k) (paginated_url products_url (1 + k)))
                     [0..<length cs]))) \<and>
   (full_pages E products_url website_url n pages \<and> length pages < fuel \<longrightarrow>
      get_product_catalog fuel E website_url n =
        Some (map (normalised E website_url) (concat pages),
              concat (map (\<lambda>k. [Request (paginated_url products_url (1 + k)),
                                 Sleep DELAY_BETWEEN_REQUESTS])
                        [0..<length pages])
              @ [Request (paginated_url products_url (1 + length pages))]))"
proof (intro impI conjI)
  assume u: "urljoin E website_url ''/products.json'' = Inr products_url"
  assume "get_product_catalog fuel E website_url n = Some (res, evs)"
  with u have "catalog_loop fuel E products_url website_url 1 n [] = Some (res, evs)"
    by (simp add: get_product_catalog_def)
  then show "\<exists>cs. cs \<noteq> [] \<and> (\<forall>c \<in> set cs. 1 \<le> c \<and> c \<le> MAX_RETRIES) \<and>
         requests evs =
           concat (map (\<lambda>k. replicate (cs ! k) (paginated_url products_url (1 + k)))
                     [0..<length cs])"
    by (rule catalog_loop_requests)
next
  assume u: "urljoin E website_url ''/products.json'' = Inr products_url"
  assume "full_pages E products_url website_url n pages \<and> length pages < fuel"
  then have "catalog_loop fuel E products_url website_url 1 n [] =
     Some ([] @ map (normalised E website_url) (concat pages),
           concat (map (\<lambda>k. [Request (paginated_url products_url (1 + k)),
                              Sleep DELAY_BETWEEN_REQUESTS])
                     [0..<length pages])
           @ [Request (paginated_url products_url (1 + length pages))])"
    by (intro catalog_loop_pages) (auto simp: full_pages_def)
  with u show "get_product_catalog fuel E website_url n =
        Some (map (normalised E website_url) (concat pages),
              concat (map (\<lambda>k. [Request (paginated_url products_url (1 + k)),
                                 Sleep DELAY_BETWEEN_REQUESTS])
                        [0..<length pages])
              @ [Request (paginated_url products_url (1 + length pages))])"
    by (simp add: get_product_catalog_def)
qed

theorem catalog_pagination_witness:
  \<open>urljoin env_shop ''https://shop.example'' ''/products.json''
     = Inr ''https://shop.example/products.json'' \<and>
   full_pages env_shop ''https://shop.example/products.json'' ''https://shop.example'' 0
     [[PDict [(''id'', PInt 1), (''title'', PStr ''Socks''), (''handle'', PStr ''socks'')]]] \<and>
   get_product_catalog 3 env_shop ''https://shop.example'' 0 =
     Some (map (normalised env_shop ''https://shop.example'')
             [PDict [(''id'', PInt 1), (''title'', PStr ''Socks''), (''handle'', PStr ''socks'')]],
           [Request (paginated_url ''https://shop.example/products.json'' 1),
            Sleep DELAY_BETWEEN_REQUESTS,
            Request (paginated_url ''https://shop.example/products.json'' 2)]) \<and>
   (\<exists>cs. cs \<noteq> [] \<and> (\<forall>c \<in> set cs. 1 \<le> c \<and> c \<le> MAX_RETRIES) \<and>
      requests [Request ''https://shop.example/products.json?limit=250&page=1'', Sleep 1,
                Request ''https://shop.example/products.json?limit=250&page=2''] =
        concat (map (\<lambda>k. replicate (cs ! k)
                       (paginated_url ''https://shop.example/products.json'' (1 + k)))
                  [0..<length cs]))\<close>
proof -
  let ?w = "''https://shop.example''"
  let ?u = "''https://shop.example/products.json''"
  let ?p = "PDict [(''id'', PInt 1), (''title'', PStr ''Socks''), (''handle'', PStr ''socks'')]"
  let ?res = "[PDict
             [(''shopify_id'', PInt 1), (''title'', PStr ''Socks''),
              (''handle'', PStr ''socks''), (''description'', PStr []),
              (''vendor'', PNone), (''product_type'', PNone), (''tags'', PList []),
              (''product_url'', PStr ''https://shop.example/products/socks''),
              (''created_at'', PNone), (''updated_at'', PNone),
              (''available'', PBool True), (''variants'', PList []),
              (''images'', PList []), (''options'', PList [])]]"
  let ?evs = "[Request ''https://shop.example/products.json?limit=250&page=1'', Sleep 1,
                Request ''https://shop.example/products.json?limit=250&page=2'']"
  have u: "urljoin env_shop ?w ''/products.json'' = Inr ?u"
    by (simp add: env_shop_def env0_def)
  note t = catalog_pagination [of env_shop ?w ?u 3 0 ?res ?evs "[[?p]]", THEN mp, OF u]
  from t have x: "\<exists>cs. cs \<noteq> [] \<and> (\<forall>c \<in> set cs. 1 \<le> c \<and> c \<le> MAX_RETRIES) \<and>
      requests ?evs = concat (map (\<lambda>k. replicate (cs ! k) (paginated_url ?u (1 + k)))
                  [0..<length cs])"
    by (rule conjunct1 [THEN mp, OF _ env_shop_catalog])
  have fl: "full_pages env_shop ?u ?w 0 [[?p]] \<and> length [[?p]] < 3"
    using env_shop_full_pages by simp
  have "get_product_catalog 3 env_shop ?w 0 =
        Some (map (normalised env_shop ?w) (concat [[?p]]),
              concat (map (\<lambda>k. [Request (paginated_url ?u (1 + k)),
                                 Sleep DELAY_BETWEEN_REQUESTS])
                        [0..<length [[?p]]])
              @ [Request (paginated_url ?u (1 + length [[?p]]))])"
    by (rule t [THEN conjunct2, THEN mp, OF fl])
  then have y: "get_product_catalog 3 env_shop ?w 0 =
     Some (map (normalised env_shop ?w) [?p],
           [Request (paginated_url ?u 1), Sleep DELAY_BETWEEN_REQUESTS,
            Request (paginated_url ?u 2)])"
    by (simp add: numeral_2_eq_2)
  from u env_shop_full_pages y x show ?thesis by (intro conjI)
qed

section \<open>Properties of \<open>_extract_contact_info\<close>\<close>

lemma contact_email_lookup:
  "map_of (extract_contact_info E html) ''contact_email'' =
     (case extract_email_addresses E html of
        [] \<Rightarrow> None
      | first # rest \<Rightarrow>
          Some (PStr (hd (filter (\<lambda>x. \<not> skipped x) (first # rest) @ first # rest))))"
  by (auto simp: extract_contact_info_def Let_def update_conv' split: list.splits)

lemma env_mail_contact:
  "map_of (extract_contact_info env_mail ''<p>Write to info@shop.example or sales@shop.example</p>'')
      ''contact_email'' = Some (PStr ''sales@shop.example'')"
  by code_simp

lemma env_mail_scan:
  "findall_email env_mail ''<p>Write to info@shop.example or sales@shop.example</p>''
     = [''info@shop.example'', ''sales@shop.example'']"
  by (simp add: env_mail_def env0_def)

lemma not_skipped_info: "\<not> skipped ''info@shop.example''"
  by code_simp

text \<open>
  Claim C8, as stated, fails.  The page names \<open>info@shop.example\<close> first and
  \<open>sales@shop.example\<close> second, and neither is filtered out.  \<open>extract_email_addresses\<close>
  returns \<open>list(set(matches))\<close>, whose order is not the order of the page: with the two
  addresses in the order a set may give them, the address chosen is the second one of the
  page.
\<close>

theorem contact_email_counterexample:
  "findall_email env_mail ''<p>Write to info@shop.example or sales@shop.example</p>''
     = [''info@shop.example'', ''sales@shop.example''] \<and>
   \<not> skipped ''info@shop.example'' \<and>
   map_of (extract_contact_info env_mail ''<p>Write to info@shop.example or sales@shop.example</p>'')
      ''contact_email'' = Some (PStr ''sales@shop.example'')"
  using env_mail_scan not_skipped_info env_mail_contact by (intro conjI)

text \<open>
  Claim C8, amended.  Contact-email extraction scans the raw HTML with a regex for all
  email addresses and removes duplicates through a set, which keeps the addresses and not
  their order.  It filters out the addresses whose lower-cased text contains \<open>no-reply\<close>,
  \<open>noreply\<close>, \<open>donotreply\<close> or \<open>example.com\<close>, and chooses the first remaining address of
  the deduplicated list, or the first address of that list when every address is filtered
  out.  The address chosen is one of the addresses of the document, and it is one that the
  filter keeps whenever the document has such an address.  A document without addresses
  gets no contact email.
\<close>

theorem contact_email_choice:
  assumes "set (list_of_set E (findall_email E html)) = set (findall_email E html)"
  shows "(html = [] \<or> findall_email E html = [] \<longrightarrow>
            map_of (extract_contact_info E html) ''contact_email'' = None) \<and>
         (html \<noteq> [] \<and> findall_email E html \<noteq> [] \<longrightarrow>
            (\<exists>e. map_of (extract_contact_info E html) ''contact_email'' = Some (PStr e) \<and>
                 e = hd (filter (\<lambda>x. \<not> skipped x) (list_of_set E (findall_email E html))
                         @ list_of_set E (findall_email E html)) \<and>
                 e \<in> set (findall_email E html) \<and>
                 ((\<exists>x \<in> set (findall_email E html). \<not> skipped x) \<longrightarrow> \<not> skipped e)))"
proof (intro conjI impI)
  assume "html = [] \<or> findall_email E html = []"
  then have "extract_email_addresses E html = []"
    using assms by (auto simp: extract_email_addresses_def)
  then show "map_of (extract_contact_info E html) ''contact_email'' = None"
    by (simp add: contact_email_lookup)
next
  assume a: "html \<noteq> [] \<and> findall_email E html \<noteq> []"
  let ?ms = "list_of_set E (findall_email E html)"
  let ?f = "filter (\<lambda>x. \<not> skipped x) ?ms"
  from a have em: "extract_email_addresses E html = ?ms"
    by (simp add: extract_email_addresses_def)
  from a assms have ne: "?ms \<noteq> []" by (metis set_empty)
  then obtain first rest where fr: "?ms = first # rest" by (cases ?ms) auto
  have 1: "map_of (extract_contact_info E html) ''contact_email'' = Some (PStr (hd (?f @ ?ms)))"
    using fr by (simp add: contact_email_lookup em)
  have 2: "hd (?f @ ?ms) \<in> set (findall_email E html)"
  proof (cases "?f = []")
    case True
    then show ?thesis using ne assms by (metis append_Nil hd_in_set)
  next
    case False
    then have "hd (?f @ ?ms) = hd ?f" by simp
    moreover have "hd ?f \<in> set ?f" using False by (rule hd_in_set)
    ultimately show ?thesis using assms by auto
  qed
  have 3: "\<not> skipped (hd (?f @ ?ms))" if "\<exists>x \<in> set (findall_email E html). \<not> skipped x"
  proof -
    from that assms have "?f \<noteq> []" by (auto simp: filter_empty_conv)
    then have h: "hd (?f @ ?ms) = hd ?f" by simp
    from \<open>?f \<noteq> []\<close> have "hd ?f \<in> set ?f" by (rule hd_in_set)
    then have "\<not> skipped (hd ?f)" by simp
    with h show ?thesis by simp
  qed
  from 1 2 3 show "\<exists>e. map_of (extract_contact_info E html) ''contact_email'' = Some (PStr e) \<and>
                 e = hd (?f @ ?ms) \<and>
                 e \<in> set (findall_email E html) \<and>
                 ((\<exists>x \<in> set (findall_email E html). \<not> skipped x) \<longrightarrow> \<not> skipped e)"
    by blast
qed


theorem contact_email_choice_witness:
  "set (list_of_set env_mail
          (findall_email env_mail ''<p>Write to info@shop.example or sales@shop.example</p>''))
     = set (findall_email env_mail ''<p>Write to info@shop.example or sales@shop.example</p>'') \<and>
   findall_email env_mail ''<p>Write to info@shop.example or sales@shop.example</p>'' \<noteq> [] \<and>
   (\<exists>e. map_of (extract_contact_info env_mail
                   ''<p>Write to info@shop.example or sales@shop.example</p>'')
             ''contact_email'' = Some (PStr e) \<and>
        e \<in> {''info@shop.example'', ''sales@shop.example''} \<and> \<not> skipped e)"
proof -
  let ?doc = "''<p>Write to info@shop.example or sales@shop.example</p>''"
  have s: "set (list_of_set env_mail (findall_email env_mail ?doc))
             = set (findall_email env_mail ?doc)"
    by (auto simp: env_mail_def env0_def)
  have n: "?doc \<noteq> [] \<and> findall_email env_mail ?doc \<noteq> []"
    by (simp add: env_mail_scan)
  have k: "\<exists>x \<in> set (findall_email env_mail ?doc). \<not> skipped x"
    using not_skipped_info by (simp add: env_mail_scan)
  from contact_email_choice [OF s, THEN conjunct2, THEN mp, OF n] k
  have "\<exists>e. map_of (extract_contact_info env_mail ?doc) ''contact_email'' = Some (PStr e) \<and>
             e \<in> set (findall_email env_mail ?doc) \<and> \<not> skipped e"
    by blast
  then have "\<exists>e. map_of (extract_contact_info env_mail ?doc) ''contact_email'' = Some (PStr e) \<and>
             e \<in> {''info@shop.example'', ''sales@shop.example''} \<and> \<not> skipped e"
    by (simp add: env_mail_scan)
  with s n show ?thesis by blast
qed

section \<open>Properties of \<open>_extract_basic_info\<close>\<close>









lemma clean_text_Acme: "clean_text env0 ''Acme'' = ''Acme''"
  by code_simp





section \<open>Properties of \<open>scrape_store\<close>\<close>

lemma extract_domain_bracket:
  "extract_domain E ''https://['' = Inl (Exn ValueError ''Invalid IPv6 URL'')"
  by (simp add: extract_domain_def urlsplit_netloc_def strip_scheme_def is_alpha_def
      scheme_char_def is_digit_def Let_def)

lemma map_of_dict_update:
  "k \<notin> fst ` set d \<Longrightarrow> map_of (dict_update result d) k = map_of result k"
  unfolding dict_update_def
  by (induction d arbitrary: result) (auto simp: update_conv')

lemma extract_policies_keys:
  "extract_policies E soup w ps n result = (Inr r, evs) \<Longrightarrow>
   fst ` set r \<subseteq> fst ` set result \<union> (\<Union>p \<in> set ps. {fst p @ ''_url'', fst p @ ''_text''})"
proof (induction ps arbitrary: n result r evs)
  case Nil
  then show ?case by auto
next
  case (Cons p ps)
  obtain pt kw where p: "p = (pt, kw)" by (cases p)
  show ?case
  proof (cases "first_policy_link soup kw")
    case None
    with Cons.prems p have "extract_policies E soup w ps n
            (result @ [(pt @ ''_url'', PNone), (pt @ ''_text'', PStr [])]) = (Inr r, evs)"
      by simp
    from Cons.IH [OF this] show ?thesis using p by auto
  next
    case (Some link)
    with Cons.prems p obtain u t evs1 evs2 where
      "extract_policies E soup w ps (n + nreq evs1)
            (result @ [(pt @ ''_url'', PStr u), (pt @ ''_text'', PStr t)]) = (Inr r, evs2)"
      by (auto split: sum.splits prod.splits)
    from Cons.IH [OF this] show ?thesis using p by auto
  qed
qed

lemma scrape_body_status:
  assumes "scrape_body fuel E w d n = Some (Inr result, evs)"
  shows "map_of result ''scraping_status'' = Some (PStr ''completed'')"
proof -
  have pk: "''scraping_status'' \<notin> fst ` set r"
    if "extract_policies E soup w policies m [] = (Inr r, evs')" for soup m r evs'
    using extract_policies_keys [OF that] by (auto simp: policies_def)
  have bk: "''scraping_status'' \<notin> fst ` set b" if "extract_basic_info E soup w = Inr b" for soup b
    using that by (auto simp: extract_basic_info_def split: sum.splits elim!: exn_bind.elims)
  have ck: "''scraping_status'' \<notin> fst ` set (extract_contact_info E html)" for html
    by (auto simp: extract_contact_info_def Let_def split: list.splits)
  show ?thesis
    using assms
    by (auto simp: scrape_body_def Let_def update_conv' map_of_dict_update pk bk ck
        split: prod.splits sum.splits option.splits if_splits)
qed

text \<open>
  When \<open>extract_domain\<close> accepts the scheme-qualified URL, \<open>scrape_store\<close> does what claim
  C10 says: it raises nothing, and the dictionary it returns has the status \<open>completed\<close>, or is
  the dictionary of the handler, with the scheme-qualified URL, the domain,
  \<open>is_shopify_store = False\<close>, the status \<open>failed\<close> and the text of the exception.
\<close>

lemma scrape_store_with_domain:
  assumes "extract_domain E (qualify_url u) = Inr d"
    and "scrape_store fuel E u n = Some (r, evs)"
  shows "\<exists>res. r = Inr res \<and>
           (map_of res ''scraping_status'' = Some (PStr ''completed'') \<or>
            (\<exists>e. res = failed_result (qualify_url u) d e))"
  using assms scrape_body_status [of fuel E "qualify_url u" d n]
  by (auto simp: scrape_store_def Let_def split: option.splits sum.splits prod.splits)

text \<open>
  Claim C10 does not hold of the code.  For the input \<open>[\<close> the scheme-qualified URL is
  \<open>https://[\<close>, on which \<open>extract_domain\<close> raises \<open>ValueError\<close>.  The handler of
  \<open>scrape_store\<close> then finds no local \<open>domain\<close> and calls \<open>extract_domain\<close> again: the
  second \<open>ValueError\<close> leaves \<open>scrape_store\<close>, and no dictionary is returned.
\<close>

theorem scrape_store_raises:
  "qualify_url ''['' = ''https://['' \<and>
   scrape_store fuel E ''['' n = Some (Inl (Exn ValueError ''Invalid IPv6 URL''), [])"
  by (simp add: scrape_store_def qualify_url_def extract_domain_bracket)

section \<open>Properties of \<open>_analyze_competitors\<close>\<close>

lemma analyze_competitors_loop_Cons:
  "analyze_competitors_loop fuel E i (u # us) d n acc =
     (case analyze_competitor fuel E u n of
        None \<Rightarrow> None
      | Some (cd, evs) \<Rightarrow>
          (case (if completed cd
                 then analyze_competitors_loop fuel E i us (snd (save_competitor E i cd d))
                        (n + nreq evs)
                        (acc @ [PDict (competitor_to_dict
                                  (competitor_row_of E i (next_competitor_id (session d)) cd))])
                 else analyze_competitors_loop fuel E i us d (n + nreq evs) acc) of
             None \<Rightarrow> None
           | Some (result, d'', evs') \<Rightarrow> Some (result, d'', evs @ evs')))"
  by (simp add: completed_def save_competitor_def Let_def split: option.splits)

lemma next_id_save_competitor:
  "next_competitor_id (session (snd (save_competitor E i cd d))) = Suc (next_competitor_id (session d))"
  by (simp add: save_competitor_def Let_def commit_def)

lemma analyze_competitors_loop_runs:
  assumes "competitor_runs fuel E urls n = Some runs"
  shows "analyze_competitors_loop fuel E i urls d n acc =
            Some (acc @ map (\<lambda>c. PDict (competitor_to_dict c))
                          (numbered_rows E i (next_competitor_id (session d))
                             (filter completed (map fst runs))),
                  save_all E i (filter completed (map fst runs)) d,
                  concat (map snd runs)) \<and>
         length runs = length urls"
  using assms
proof (induction urls arbitrary: d n acc runs)
  case Nil
  then show ?case by simp
next
  case (Cons u us)
  from Cons.prems obtain cd evs rs where
    a: "analyze_competitor fuel E u n = Some (cd, evs)"
    and r: "competitor_runs fuel E us (n + nreq evs) = Some rs"
    and runs: "runs = (cd, evs) # rs"
    by (auto split: option.splits prod.splits)
  show ?case
  proof (cases "completed cd")
    case False
    with a runs Cons.IH [OF r, of d acc] show ?thesis
      by (simp add: analyze_competitors_loop_Cons del: analyze_competitors_loop.simps)
  next
    case True
    with a runs
      Cons.IH [OF r, of "snd (save_competitor E i cd d)"
        "acc @ [PDict (competitor_to_dict
                        (competitor_row_of E i (next_competitor_id (session d)) cd))]"]
    show ?thesis
      by (simp add: analyze_competitors_loop_Cons next_id_save_competitor
          del: analyze_competitors_loop.simps)
  qed
qed

lemma save_all_rows:
  "competitor_rows (session (save_all E i cs d)) =
     competitor_rows (session d) @ numbered_rows E i (next_competitor_id (session d)) cs \<and>
   competitor_rows (committed (save_all E i cs d)) =
     (if cs = [] then competitor_rows (committed d)
      else competitor_rows (session d) @ numbered_rows E i (next_competitor_id (session d)) cs) \<and>
   brand_rows (session (save_all E i cs d)) = brand_rows (session d) \<and>
   product_rows (session (save_all E i cs d)) = product_rows (session d)"
proof (induction cs arbitrary: d)
  case Nil
  then show ?case by simp
next
  case (Cons c cs)
  let ?d1 = "snd (save_competitor E i c d)"
  have d1: "competitor_rows (session ?d1) =
              competitor_rows (session d) @ [competitor_row_of E i (next_competitor_id (session d)) c]"
    "next_competitor_id (session ?d1) = Suc (next_competitor_id (session d))"
    "committed ?d1 = session ?d1"
    "brand_rows (session ?d1) = brand_rows (session d)"
    "product_rows (session ?d1) = product_rows (session d)"
    by (simp_all add: save_competitor_def Let_def commit_def)
  from Cons.IH [of ?d1] d1 show ?case by simp
qed

lemma analyze_competitor_fetch_fails:
  assumes "extract_domain E (qualify_url u) = Inr dm"
    and "fetch_page E (qualify_url u) n = (Inl e, evs)"
  shows "analyze_competitor fuel E u n = Some (failed_result (qualify_url u) dm e, evs)"
  using assms
  by (simp add: analyze_competitor_def scrape_store_def scrape_body_def failed_result_def dget_def)

lemma not_completed_failed_result: "\<not> completed (failed_result w dm e)"
  by (simp add: completed_def failed_result_def dget_def)

lemma rivals_gymshark:
  "analyze_competitor 5 env_rivals ''gymshark.com'' 0 =
     Some (gymshark_failed,
           [Request ''https://gymshark.com'', Sleep 1,
            Request ''https://gymshark.com'', Sleep 2,
            Request ''https://gymshark.com''])"
  by code_simp

lemma rivals_batch:
  "(case analyze_competitors 5 env_rivals 1 empty_db 0 of
      None \<Rightarrow> False
    | Some (competitors_data, d, evs) \<Rightarrow>
        length competitors_data = 2 \<and>
        map (\<lambda>c. dget (competitor_columns c) ''domain'' PNone) (competitor_rows (committed d))
          = [PStr ''allbirds.com'', PStr ''colourpop.com''])"
  by code_simp

lemma rivals_runs:
  "competitor_runs 5 env_rivals [''gymshark.com'', ''allbirds.com''] 0 =
     Some [(gymshark_failed,
            [Request ''https://gymshark.com'', Sleep 1,
             Request ''https://gymshark.com'', Sleep 2,
             Request ''https://gymshark.com'']),
           (allbirds_completed, [Request ''https://allbirds.com''])]"
  by code_simp

text \<open>
  Claim C6, as stated, fails in its first part.  The fetch of \<open>gymshark.com\<close> throws a
  network error and \<open>analyze_competitor\<close> returns a failed result for it.  The batch goes
  on and returns the two other competitors, but the failed competitor is not recorded: the
  table of competitors holds the two completed ones only.
\<close>

theorem analyze_competitors_counterexample:
  "analyze_competitor 5 env_rivals ''gymshark.com'' 0 =
     Some (gymshark_failed,
           [Request ''https://gymshark.com'', Sleep 1,
            Request ''https://gymshark.com'', Sleep 2,
            Request ''https://gymshark.com'']) \<and>
   (case analyze_competitors 5 env_rivals 1 empty_db 0 of
      None \<Rightarrow> False
    | Some (competitors_data, d, evs) \<Rightarrow>
        length competitors_data = 2 \<and>
        map (\<lambda>c. dget (competitor_columns c) ''domain'' PNone) (competitor_rows (committed d))
          = [PStr ''allbirds.com'', PStr ''colourpop.com''])"
  using rivals_gymshark rivals_batch by (intro conjI)

text \<open>
  Claim C6, amended.  When scraping one competitor URL fails (a network error thrown by
  its fetch included), \<open>analyze_competitor\<close> returns a result with the status \<open>failed\<close> and
  the batch skips that competitor: no CompetitorRecord is stored for it and it is not in the
  list returned.  The batch continues: \<open>analyze_competitor\<close> is run on every URL of the
  batch, and the list returned and the records stored are those of exactly the competitors
  whose status is \<open>completed\<close>, in the order of the batch.
\<close>

theorem analyze_competitors_skips_failed:
  "(extract_domain E (qualify_url u) = Inr dm \<and> fetch_page E (qualify_url u) m = (Inl e, evs) \<longrightarrow>
      analyze_competitor fuel E u m = Some (failed_result (qualify_url u) dm e, evs) \<and>
      \<not> completed (failed_result (qualify_url u) dm e)) \<and>
   (competitor_runs fuel E urls n = Some runs \<longrightarrow>
      analyze_competitors_loop fuel E i urls d n [] =
        Some (map (\<lambda>c. PDict (competitor_to_dict c))
                (numbered_rows E i (next_competitor_id (session d))
                   (filter completed (map fst runs))),
              save_all E i (filter completed (map fst runs)) d,
              concat (map snd runs)) \<and>
      length runs = length urls \<and>
      competitor_rows (session (save_all E i (filter completed (map fst runs)) d)) =
        competitor_rows (session d) @
        numbered_rows E i (next_competitor_id (session d)) (filter completed (map fst runs)))"
  using analyze_competitor_fetch_fails [of E u dm m e evs fuel]
    not_completed_failed_result [of "qualify_url u" dm e]
    analyze_competitors_loop_runs [of fuel E urls n runs i d "[]"]
    save_all_rows [of E i "filter completed (map fst runs)" d]
  by simp

theorem analyze_competitors_skips_failed_witness:
  "extract_domain env_rivals (qualify_url ''gymshark.com'') = Inr ''gymshark.com'' \<and>
   fetch_page env_rivals (qualify_url ''gymshark.com'') 0 =
     (Inl (Exn NetworkError ''Failed to fetch https://gymshark.com: connection refused''),
      [Request ''https://gymshark.com'', Sleep 1,
       Request ''https://gymshark.com'', Sleep 2,
       Request ''https://gymshark.com'']) \<and>
   analyze_competitor 5 env_rivals ''gymshark.com'' 0 =
     Some (failed_result (qualify_url ''gymshark.com'') ''gymshark.com''
             (Exn NetworkError ''Failed to fetch https://gymshark.com: connection refused''),
           [Request ''https://gymshark.com'', Sleep 1,
            Request ''https://gymshark.com'', Sleep 2,
            Request ''https://gymshark.com'']) \<and>
   competitor_runs 5 env_rivals [''gymshark.com'', ''allbirds.com''] 0 =
     Some [(gymshark_failed,
            [Request ''https://gymshark.com'', Sleep 1,
             Request ''https://gymshark.com'', Sleep 2,
             Request ''https://gymshark.com'']),
           (allbirds_completed, [Request ''https://allbirds.com''])] \<and>
   analyze_competitors_loop 5 env_rivals 1 [''gymshark.com'', ''allbirds.com''] empty_db 0 [] =
     Some ([PDict (competitor_to_dict (competitor_row_of env_rivals 1 1 allbirds_completed))],
           save_all env_rivals 1 [allbirds_completed] empty_db,
           [Request ''https://gymshark.com'', Sleep 1,
            Request ''https://gymshark.com'', Sleep 2,
            Request ''https://gymshark.com'', Request ''https://allbirds.com'']) \<and>
   competitor_rows (session (save_all env_rivals 1 [allbirds_completed] empty_db)) =
     [competitor_row_of env_rivals 1 1 allbirds_completed]"
proof -
  let ?e = "Exn NetworkError ''Failed to fetch https://gymshark.com: connection refused''"
  let ?evs = "[Request ''https://gymshark.com'', Sleep 1,
       Request ''https://gymshark.com'', Sleep 2,
       Request ''https://gymshark.com'']"
  have x: "extract_domain env_rivals (qualify_url ''gymshark.com'') = Inr ''gymshark.com''"
    by code_simp
  have f: "fetch_page env_rivals (qualify_url ''gymshark.com'') 0 = (Inl ?e, ?evs)"
    by code_simp
  have c: "filter completed (map fst
              [(gymshark_failed, ?evs), (allbirds_completed, [Request ''https://allbirds.com''])])
            = [allbirds_completed]"
    by code_simp
  have n: "next_competitor_id (session empty_db) = 1" "competitor_rows (session empty_db) = []"
    by (simp_all add: empty_db_def empty_tables_def)
  note t = analyze_competitors_skips_failed [of env_rivals "''gymshark.com''" "''gymshark.com''"
      0 ?e ?evs 5 "[''gymshark.com'', ''allbirds.com'']" 0 _ 1 empty_db]
  from t [THEN conjunct1, THEN mp, OF conjI [OF x f]]
  have a: "analyze_competitor 5 env_rivals ''gymshark.com'' 0 =
     Some (failed_result (qualify_url ''gymshark.com'') ''gymshark.com'' ?e, ?evs)"
    by (rule conjunct1)
  from t [THEN conjunct2, THEN mp, OF rivals_runs, unfolded c n]
  have b: "analyze_competitors_loop 5 env_rivals 1 [''gymshark.com'', ''allbirds.com''] empty_db 0 [] =
     Some ([PDict (competitor_to_dict (competitor_row_of env_rivals 1 1 allbirds_completed))],
           save_all env_rivals 1 [allbirds_completed] empty_db,
           ?evs @ [Request ''https://allbirds.com''])"
    and r: "competitor_rows (session (save_all env_rivals 1 [allbirds_completed] empty_db)) =
     [competitor_row_of env_rivals 1 1 allbirds_completed]"
    by (simp_all del: analyze_competitors_loop.simps save_all.simps)
  from x f a rivals_runs b r show ?thesis
    by (simp del: analyze_competitors_loop.simps save_all.simps)
qed

section \<open>Properties of \<open>analyze_brand\<close>\<close>


lemma distinct_ids_same_row:
  assumes "distinct (map brand_id rows)" "b0 \<in> set rows" "b \<in> set rows" "brand_id b = brand_id b0"
  shows "b = b0"
  using assms by (meson distinct_map inj_onD)

lemma index_map_if:
  "(\<forall>b \<in> set rows. brand_id b = i \<longrightarrow>
       brand_domain (f b) = brand_domain b \<and> brand_id (f b) = brand_id b) \<Longrightarrow>
   map (\<lambda>b. (brand_domain b, brand_id b)) (map (\<lambda>b. if brand_id b = i then f b else b) rows)
     = map (\<lambda>b. (brand_domain b, brand_id b)) rows"
  by (induction rows) auto

lemma brand_index_set_brand:
  "(\<forall>b \<in> set (brand_rows (session d)). brand_id b = i \<longrightarrow>
       brand_domain (f b) = brand_domain b \<and> brand_id (f b) = brand_id b) \<Longrightarrow>
   brand_index (set_brand i f d) = brand_index d"
  by (simp add: brand_index_def set_brand_def index_map_if)

lemma brand_index_ids: "map snd (brand_index d) = map brand_id (brand_rows (session d))"
  by (simp add: brand_index_def comp_def)


lemma loop_save_all:
  "analyze_competitors_loop fuel E i urls d n acc = Some (r, d', evs) \<Longrightarrow>
   \<exists>cs. d' = save_all E i cs d"
proof (induction urls arbitrary: d n acc r evs)
  case Nil
  then have "d' = save_all E i [] d" by simp
  then show ?case by blast
next
  case (Cons u us)
  from Cons.prems obtain cd evs1 r1 evs2 where
    a: "analyze_competitor fuel E u n = Some (cd, evs1)"
    and l: "(if completed cd
             then analyze_competitors_loop fuel E i us (snd (save_competitor E i cd d))
                    (n + nreq evs1)
                    (acc @ [PDict (competitor_to_dict
                              (competitor_row_of E i (next_competitor_id (session d)) cd))])
             else analyze_competitors_loop fuel E i us d (n + nreq evs1) acc)
            = Some (r1, d', evs2)"
    by (auto simp: analyze_competitors_loop_Cons simp del: analyze_competitors_loop.simps
        split: option.splits prod.splits)
  show ?case
  proof (cases "completed cd")
    case True
    with l Cons.IH obtain cs where "d' = save_all E i cs (snd (save_competitor E i cd d))"
      by fastforce
    then have "d' = save_all E i (cd # cs) d" by simp
    then show ?thesis by blast
  next
    case False
    with l Cons.IH show ?thesis by fastforce
  qed
qed

lemma save_all_keeps:
  "committed d = session d \<Longrightarrow>
   committed (save_all E i cs d) = session (save_all E i cs d) \<and>
   brand_rows (session (save_all E i cs d)) = brand_rows (session d) \<and>
   product_rows (session (save_all E i cs d)) = product_rows (session d) \<and>
   next_brand_id (session (save_all E i cs d)) = next_brand_id (session d)"
proof (induction cs arbitrary: d)
  case Nil
  then show ?case by simp
next
  case (Cons c cs)
  let ?d1 = "snd (save_competitor E i c d)"
  have d1: "committed ?d1 = session ?d1"
    "brand_rows (session ?d1) = brand_rows (session d)"
    "product_rows (session ?d1) = product_rows (session d)"
    "next_brand_id (session ?d1) = next_brand_id (session d)"
    by (simp_all add: save_competitor_def Let_def commit_def)
  from Cons.IH [OF d1(1)] d1 show ?case by simp
qed

lemma analyze_competitors_keeps:
  assumes "committed d = session d" "analyze_competitors fuel E i d n = Some (r, d', evs)"
  shows "committed d' = session d' \<and>
   brand_rows (session d') = brand_rows (session d) \<and>
   product_rows (session d') = product_rows (session d) \<and>
   next_brand_id (session d') = next_brand_id (session d)"
proof -
  from assms(2) obtain cs where "d' = save_all E i cs d"
    unfolding analyze_competitors_def using loop_save_all by blast
  with save_all_keeps [OF assms(1)] show ?thesis by simp
qed




text \<open>
  The dictionary of a scrape that did not fail has a name: \<open>_extract_basic_info\<close> always
  sets one, and no later step of \<open>scrape_store\<close> overwrites it.
\<close>

lemma scrape_body_name:
  assumes "scrape_body fuel E w d n = Some (Inr result, evs)"
  shows "\<exists>nm. map_of result ''name'' = Some (PStr nm)"
proof -
  have pk: "''name'' \<notin> fst ` set r"
    if "extract_policies E soup w policies m [] = (Inr r, evs')" for soup m r evs'
    using extract_policies_keys [OF that] by (auto simp: policies_def)
  have bk: "\<exists>nm ctx. b = [(''name'', PStr nm), (''brand_context'', PStr ctx)]"
    if "extract_basic_info E soup w = Inr b" for soup b
    using that by (auto simp: extract_basic_info_def split: sum.splits elim!: exn_bind.elims)
  have ck: "''name'' \<notin> fst ` set (extract_contact_info E html)" for html
    by (auto simp: extract_contact_info_def Let_def split: list.splits)
  have bu: "map_of (dict_update r [(''name'', PStr nm), (''brand_context'', PStr ctx)]) ''name''
              = Some (PStr nm)" for r nm ctx
    by (simp add: dict_update_def update_conv')
  show ?thesis
    using assms
    by (auto simp: scrape_body_def Let_def update_conv' map_of_dict_update pk ck bu
        split: prod.splits sum.splits option.splits if_splits dest!: bk)
qed

lemma scrape_store_name:
  assumes "scrape_store fuel E u n = Some (Inr sd, evs)"
    and "dget sd ''scraping_status'' PNone \<noteq> PStr ''failed''"
  shows "\<exists>nm. map_of sd ''name'' = Some (PStr nm)"
  using assms scrape_body_name [of fuel E "qualify_url u" _ n sd evs]
  by (auto simp: scrape_store_def Let_def failed_result_def dget_def
      split: option.splits sum.splits prod.splits)

text \<open>
  The checks of the database, and what the steps of \<open>analyze_brand\<close> do to them.
\<close>

lemma integrity_error_None:
  "integrity_error E t = None \<longleftrightarrow>
     list_all (\<lambda>b. dget (brand_columns b) ''name'' PNone \<noteq> PNone) (brand_rows t) \<and>
     distinct (map brand_website_url (brand_rows t)) \<and>
     list_all (\<lambda>p. dget (product_columns p) ''title'' PNone \<noteq> PNone) (product_rows t)"
  by (auto simp: integrity_error_def list_all_iff list_ex_iff)

lemma try_commit_Inr:
  "try_commit E d = Inr d' \<longleftrightarrow> integrity_error E (session d) = None \<and> d' = commit d"
  by (auto simp: try_commit_def flush_def split: option.splits)



lemma map_if_cols:
  "(\<And>b. brand_website_url (f b) = brand_website_url b) \<Longrightarrow>
   map (brand_website_url \<circ> (\<lambda>b. if brand_id b = i then f b else b)) rows
     = map brand_website_url rows"
  by (induction rows) auto

lemma integrity_set_brand:
  assumes "\<And>b. brand_website_url (f b) = brand_website_url b"
    and "\<And>b. dget (brand_columns b) ''name'' PNone \<noteq> PNone \<Longrightarrow>
              dget (brand_columns (f b)) ''name'' PNone \<noteq> PNone"
    and "integrity_error E (session d) = None"
  shows "integrity_error E (session (set_brand i f d)) = None"
  using assms(2,3)
  by (auto simp: integrity_error_None set_brand_def map_if_cols [OF assms(1)] list_all_iff)

lemma save_products_result:
  assumes I: "integrity_error E (session d) = None"
  shows "save_products E i C d =
     (case catalog_rows i C of
        Inr rows \<Rightarrow>
          if list_all (\<lambda>p. dget (product_columns p) ''title'' PNone \<noteq> PNone) rows
          then commit (d \<lparr> session := (session d)
                         \<lparr> product_rows :=
                             filter (\<lambda>p. product_brand_id p \<noteq> i) (product_rows (session d))
                             @ rows \<rparr> \<rparr>)
          else rollback d
      | Inl e \<Rightarrow> rollback d)"
proof (cases "catalog_rows i C")
  case (Inl e)
  then show ?thesis
    by (simp add: save_products_def try_save_products_def flush_def I Let_def)
next
  case (Inr rows)
  let ?t = "(session d) \<lparr> product_rows :=
              filter (\<lambda>p. product_brand_id p \<noteq> i) (product_rows (session d)) @ rows \<rparr>"
  have "integrity_error E ?t = None \<longleftrightarrow>
          list_all (\<lambda>p. dget (product_columns p) ''title'' PNone \<noteq> PNone) rows"
    using I by (auto simp: integrity_error_None list_all_iff)
  then show ?thesis
    using Inr
    by (cases "integrity_error E ?t")
       (simp_all add: save_products_def try_save_products_def flush_def try_commit_def I Let_def)
qed

lemma list_ex_map_if:
  "list_ex (\<lambda>b. brand_id b = i) rows \<Longrightarrow> (\<And>b. brand_id (f b) = brand_id b) \<Longrightarrow>
   list_ex (\<lambda>b. brand_id b = i) (map (\<lambda>b. if brand_id b = i then f b else b) rows)"
  by (induction rows) auto

lemma upsert_existing:
  assumes ok: "db_ok d" and fb: "find_brand d dm = Some b0"
    and u: "upsert_brand E w dm d = (i, d1)"
  shows "i = brand_id b0 \<and> brand_index d1 = brand_index d \<and> committed d1 = committed d \<and>
         next_brand_id (session d1) = next_brand_id (session d) \<and>
         product_rows (session d1) = product_rows (session d) \<and>
         list_ex (\<lambda>b. brand_id b = i) (brand_rows (session d1))"
proof -
  from fb have in_rows: "b0 \<in> set (brand_rows (session d))" and dom0: "brand_domain b0 = dm"
    by (auto simp: find_brand_def find_Some_iff)
  from ok have dist: "distinct (map brand_id (brand_rows (session d)))"
    unfolding db_ok_def by blast
  have same: "brand_domain b = dm" if "b \<in> set (brand_rows (session d))" "brand_id b = brand_id b0" for b
    using distinct_ids_same_row [OF dist in_rows that] dom0 by simp
  let ?f = "\<lambda>b. b \<lparr> brand_scraping_status := ''in_progress'',
                     brand_website_url := w, brand_domain := dm \<rparr>"
  have d1: "d1 = set_brand (brand_id b0) ?f d" and i: "i = brand_id b0"
    using u fb by (auto simp: upsert_brand_def)
  have idx: "brand_index (set_brand (brand_id b0) ?f d) = brand_index d"
    by (rule brand_index_set_brand) (simp add: same)
  have "list_ex (\<lambda>b. brand_id b = brand_id b0) (brand_rows (session d))"
    using in_rows by (auto simp: list_ex_iff)
  then have "list_ex (\<lambda>b. brand_id b = brand_id b0)
               (map (\<lambda>b. if brand_id b = brand_id b0 then ?f b else b) (brand_rows (session d)))"
    by (rule list_ex_map_if) simp
  then have ex: "list_ex (\<lambda>b. brand_id b = i) (brand_rows (session d1))"
    by (simp add: d1 i set_brand_def)
  show ?thesis
    using idx ex by (simp add: d1 i set_brand_def)
qed

lemma set_brand_simps:
  "committed (set_brand i f d) = committed d"
  "product_rows (session (set_brand i f d)) = product_rows (session d)"
  "next_brand_id (session (set_brand i f d)) = next_brand_id (session d)"
  by (simp_all add: set_brand_def)

lemma stage_scraped_keeps:
  assumes cs: "committed d = session d" and I0: "integrity_error E (session d) = None"
    and nm: "dget p ''name'' PNone \<noteq> PNone"
  shows "brand_index (stage_scraped E i p d) = brand_index d \<and>
         next_brand_id (session (stage_scraped E i p d)) = next_brand_id (session d) \<and>
         integrity_error E (session (stage_scraped E i p d)) = None \<and>
         product_rows (session (stage_scraped E i p d)) =
           (if truthy (dget p ''product_catalog'' PNone) then
              (case catalog_rows i (dget p ''product_catalog'' PNone) of
                 Inr rows \<Rightarrow>
                   if list_all (\<lambda>q. dget (product_columns q) ''title'' PNone \<noteq> PNone) rows
                   then filter (\<lambda>q. product_brand_id q \<noteq> i) (product_rows (session d)) @ rows
                   else product_rows (session d)
               | Inl e \<Rightarrow> product_rows (session d))
            else product_rows (session d))"
proof -
  let ?C = "dget p ''product_catalog'' PNone"
  let ?d3 = "update_brand_from_scraped_data E i p d"
  let ?g = "\<lambda>b. b \<lparr> brand_scraping_status := ''completed'', brand_last_scraped := utcnow E \<rparr>"
  have nc: "dget (brand_columns
                (b \<lparr> brand_columns :=
                      map (\<lambda>k. (k, dget p k PNone)) (''name'' # fact_columns) @
                      [(''is_shopify_store'', dget p ''is_shopify_store'' (PBool False)),
                       (''updated_at'', utcnow E)] \<rparr>)) ''name'' PNone \<noteq> PNone" for b
    using nm by (simp add: dget_def)
  have I3: "integrity_error E (session ?d3) = None"
    unfolding update_brand_from_scraped_data_def
    by (rule integrity_set_brand) (simp_all only: I0 nc, simp_all)
  have x3: "brand_index ?d3 = brand_index d" "committed ?d3 = committed d"
    "product_rows (session ?d3) = product_rows (session d)"
    "next_brand_id (session ?d3) = next_brand_id (session d)"
    unfolding update_brand_from_scraped_data_def
    by (simp_all add: brand_index_set_brand set_brand_simps)
  let ?d4 = "if truthy ?C then save_products E i ?C ?d3 else ?d3"
  have s: "stage_scraped E i p d = set_brand i ?g ?d4"
    by (simp add: stage_scraped_def Let_def)
  have I: "integrity_error E (session (rollback ?d3)) = None"
    using I0 cs x3 by (simp add: rollback_def)
  have Ic: "integrity_error E (session (commit (?d3 \<lparr> session := (session ?d3)
                         \<lparr> product_rows :=
                             filter (\<lambda>p. product_brand_id p \<noteq> i) (product_rows (session ?d3))
                             @ rows \<rparr> \<rparr>))) = None"
    if "list_all (\<lambda>q. dget (product_columns q) ''title'' PNone \<noteq> PNone) rows" for rows
    using I3 that by (auto simp: commit_def integrity_error_None list_all_iff)
  have x4: "brand_index ?d4 = brand_index d \<and>
            next_brand_id (session ?d4) = next_brand_id (session d) \<and>
            integrity_error E (session ?d4) = None \<and>
            product_rows (session ?d4) =
           (if truthy ?C then
              (case catalog_rows i ?C of
                 Inr rows \<Rightarrow>
                   if list_all (\<lambda>q. dget (product_columns q) ''title'' PNone \<noteq> PNone) rows
                   then filter (\<lambda>q. product_brand_id q \<noteq> i) (product_rows (session d)) @ rows
                   else product_rows (session d)
               | Inl e \<Rightarrow> product_rows (session d))
            else product_rows (session d))"
  proof (cases "truthy ?C")
    case False
    then show ?thesis using I3 x3 by simp
  next
    case True
    show ?thesis
    proof (cases "catalog_rows i ?C")
      case (Inl e)
      with True I x3 cs show ?thesis
        by (simp add: save_products_result [OF I3] rollback_def brand_index_def)
    next
      case (Inr rows)
      show ?thesis
      proof (cases "list_all (\<lambda>q. dget (product_columns q) ''title'' PNone \<noteq> PNone) rows")
        case False
        with True Inr I x3 cs show ?thesis
          by (simp add: save_products_result [OF I3] rollback_def brand_index_def)
      next
        case t: True
        from Ic [OF t] True Inr t x3 show ?thesis
          by (simp add: save_products_result [OF I3] commit_def brand_index_def)
      qed
    qed
  qed
  have "integrity_error E (session (set_brand i ?g ?d4)) = None"
    by (rule integrity_set_brand) (simp_all add: x4)
  moreover have "brand_index (set_brand i ?g ?d4) = brand_index ?d4"
    by (rule brand_index_set_brand) simp
  ultimately show ?thesis
    unfolding s using x4 by (simp add: set_brand_simps)
qed

lemma dget_process_brand_context:
  "k \<noteq> ''llm_analysis'' \<Longrightarrow> dget (process_brand_context E sd) k v = dget sd k v"
  by (simp add: process_brand_context_def dget_def update_conv' split: option.splits)

lemma analyze_steps_cases:
  assumes cs: "committed d = session d" and I0: "integrity_error E (session d) = None"
    and a: "analyze_steps fuel E w c i d n = Some (out, d', evs)"
  shows "committed d' = session d' \<and> brand_index d' = brand_index d \<and>
         next_brand_id (session d') = next_brand_id (session d) \<and>
         (\<forall>e. out \<noteq> Flush_fails e) \<and>
         (\<forall>e. out = Raises e \<longrightarrow> d' = d) \<and>
         (\<forall>r. out = Returns r \<longrightarrow> map_of r ''brand_id'' = Some (PInt (int i))) \<and>
         (\<forall>sd evs1. scrape_store fuel E w n = Some (Inr sd, evs1) \<and>
                     dget sd ''scraping_status'' PNone \<noteq> PStr ''failed'' \<longrightarrow>
            product_rows (session d') =
              product_rows (session (stage_scraped E i (process_brand_context E sd) d)))"
proof (cases "scrape_store fuel E w n")
  case None
  with a show ?thesis by (simp add: analyze_steps_def)
next
  case (Some x)
  then obtain sr evs1 where s: "scrape_store fuel E w n = Some (sr, evs1)" by (cases x) auto
  show ?thesis
  proof (cases sr)
    case (Inl e)
    with s a cs show ?thesis by (auto simp: analyze_steps_def)
  next
    case (Inr sd)
    show ?thesis
    proof (cases "dget sd ''scraping_status'' PNone = PStr ''failed''")
      case True
      let ?f = "\<lambda>b. b \<lparr> brand_scraping_status := ''failed'',
                         brand_scraping_errors := dget sd ''scraping_errors'' PNone \<rparr>"
      have "integrity_error E (session (set_brand i ?f d)) = None"
        by (rule integrity_set_brand) (simp_all add: I0)
      then have t: "try_commit E (set_brand i ?f d) = Inr (commit (set_brand i ?f d))"
        by (simp add: try_commit_Inr)
      have "brand_index (set_brand i ?f d) = brand_index d"
        by (rule brand_index_set_brand) simp
      then have "brand_index (commit (set_brand i ?f d)) = brand_index d"
        by (simp add: brand_index_def commit_def)
      with s Inr True a t show ?thesis
        by (auto simp: analyze_steps_def commit_def set_brand_simps)
    next
      case False
      let ?p = "process_brand_context E sd"
      let ?d1 = "stage_scraped E i ?p d"
      from scrape_store_name [OF s [unfolded Inr] False]
      have "dget sd ''name'' PNone \<noteq> PNone"
        by (auto simp: dget_def)
      then have nm: "dget ?p ''name'' PNone \<noteq> PNone"
        by (simp add: dget_process_brand_context)
      note k = stage_scraped_keeps [OF cs I0 nm, of i]
      then have t: "try_commit E ?d1 = Inr (commit ?d1)"
        by (simp add: try_commit_Inr)
      have k2: "committed (commit ?d1) = session (commit ?d1)"
        "brand_index (commit ?d1) = brand_index d"
        "next_brand_id (session (commit ?d1)) = next_brand_id (session d)"
        "product_rows (session (commit ?d1)) = product_rows (session ?d1)"
        using k by (simp_all add: commit_def brand_index_def)
      show ?thesis
      proof (cases c)
        case False
        with s Inr \<open>dget sd ''scraping_status'' PNone \<noteq> PStr ''failed''\<close> a t
        have "d' = commit ?d1" "\<exists>r. out = Returns r \<and> map_of r ''brand_id'' = Some (PInt (int i))"
          by (auto simp: analyze_steps_def Let_def)
        with k2 s Inr show ?thesis by auto
      next
        case True
        with s Inr \<open>dget sd ''scraping_status'' PNone \<noteq> PStr ''failed''\<close> a t
        obtain cs' d2 evs2 rep where
          ac: "analyze_competitors fuel E i (commit ?d1) (n + nreq evs1) = Some (cs', d2, evs2)"
          and d': "d' = save_analysis E i ''competitor_analysis'' rep d2"
          and o: "\<exists>r. out = Returns r \<and> map_of r ''brand_id'' = Some (PInt (int i))"
          by (auto simp: analyze_steps_def Let_def split: option.splits prod.splits)
        from analyze_competitors_keeps [OF k2(1) ac] k2
        have "committed d2 = session d2" "brand_rows (session d2) = brand_rows (session (commit ?d1))"
          "next_brand_id (session d2) = next_brand_id (session d)"
          "product_rows (session d2) = product_rows (session ?d1)"
          by simp_all
        with k2 d' have "committed d' = session d'" "brand_index d' = brand_index d"
          "next_brand_id (session d') = next_brand_id (session d)"
          "product_rows (session d') = product_rows (session ?d1)"
          by (simp_all add: save_analysis_def Let_def commit_def brand_index_def)
        with o s Inr show ?thesis by auto
      qed
    qed
  qed
qed





lemma scrape_body_not_null:
  assumes "scrape_body fuel E w d n = Some (Inr result, evs)"
  shows "map_of result ''website_url'' = Some (PStr w) \<and> map_of result ''domain'' = Some (PStr d)"
proof -
  have pk: "''website_url'' \<notin> fst ` set r \<and> ''domain'' \<notin> fst ` set r"
    if "extract_policies E soup w policies m [] = (Inr r, evs')" for soup m r evs'
    using extract_policies_keys [OF that] by (auto simp: policies_def)
  have bk: "''website_url'' \<notin> fst ` set b \<and> ''domain'' \<notin> fst ` set b"
    if "extract_basic_info E soup w = Inr b" for soup b
    using that by (auto simp: extract_basic_info_def split: sum.splits elim!: exn_bind.elims)
  have ck: "''website_url'' \<notin> fst ` set (extract_contact_info E html) \<and>
            ''domain'' \<notin> fst ` set (extract_contact_info E html)" for html
    by (auto simp: extract_contact_info_def Let_def split: list.splits)
  show ?thesis
    using assms
    by (auto simp: scrape_body_def Let_def update_conv' map_of_dict_update pk bk ck
        split: prod.splits sum.splits option.splits if_splits)
qed

text \<open>
  A competitor that \<open>_analyze_competitors\<close> saves has a name, a URL and a domain: the three
  columns of \<open>competitors\<close> that are declared \<open>nullable=False\<close> and filled from the result of
  \<open>analyze_competitor\<close> are strings.
\<close>

lemma completed_competitor_columns:
  assumes "analyze_competitor fuel E u n = Some (cd, evs)" and "completed cd"
  shows "\<exists>nm url dmn. dget cd ''name'' PNone = PStr nm \<and>
           dget cd ''website_url'' PNone = PStr url \<and> dget cd ''domain'' PNone = PStr dmn"
proof -
  from assms obtain sd an where
    s: "scrape_store fuel E u n = Some (Inr sd, evs)"
    and nf: "dget sd ''scraping_status'' PNone \<noteq> PStr ''failed''"
    and cd: "cd = AList.update ''competitor_analysis'' an (process_brand_context E sd)"
    by (auto simp: analyze_competitor_def completed_def competitor_failed_def dget_def Let_def
        split: option.splits sum.splits prod.splits if_splits)
  from s nf obtain dmn where
    b: "scrape_body fuel E (qualify_url u) dmn n = Some (Inr sd, evs)"
    by (auto simp: scrape_store_def Let_def failed_result_def dget_def
        split: option.splits sum.splits prod.splits)
  from scrape_body_name [OF b] scrape_body_not_null [OF b]
  have "\<exists>nm. dget sd ''name'' PNone = PStr nm"
    "dget sd ''website_url'' PNone = PStr (qualify_url u)" "dget sd ''domain'' PNone = PStr dmn"
    by (auto simp: dget_def)
  then show ?thesis
    unfolding cd
    by (auto simp: dget_def update_conv' process_brand_context_def split: option.splits)
qed

subsection \<open>Exceptions once the brand is bound\<close>

text \<open>
  When the brand of the domain is in the table and the first commit of \<open>analyze_brand\<close> is
  accepted, no later step fails in a flush, and \<open>analyze_brand\<close> does what claim C2 says: it
  raises nothing, and the dictionary it returns carries the brand id.
\<close>

lemma analyze_brand_first_commit_accepted:
  assumes ok: "db_ok d" and x: "extract_domain E w = Inr dm"
    and fb: "find_brand d dm = Some b0"
    and I: "integrity_error E (session (snd (upsert_brand E w dm d))) = None"
    and a: "analyze_brand fuel E w c d n = Some (r, d', evs)"
  shows "\<exists>res. r = Inr res \<and> map_of res ''brand_id'' = Some (PInt (int (brand_id b0)))"
proof -
  obtain i d1 where u: "upsert_brand E w dm d = (i, d1)"
    by (cases "upsert_brand E w dm d")
  note ue = upsert_existing [OF ok fb u]
  from a x u I obtain out d3 where
    s: "analyze_steps fuel E w c i (commit d1) n = Some (out, d3, evs)"
    and h: "handler E i out d3 = (r, d')"
    by (auto simp: analyze_brand_def try_commit_def flush_def
        split: sum.splits option.splits prod.splits)
  have c2: "committed (commit d1) = session (commit d1)"
    "integrity_error E (session (commit d1)) = None"
    using I u by (simp_all add: commit_def)
  note k = analyze_steps_cases [OF c2 s]
  show ?thesis
  proof (cases out)
    case (Returns r')
    with h k ue show ?thesis by (auto simp: handler_def)
  next
    case (Raises e)
    let ?f = "\<lambda>b. b \<lparr> brand_scraping_status := ''failed'',
                       brand_scraping_errors := PStr (exn_str e) \<rparr>"
    from Raises k have d3: "d3 = commit d1" by simp
    have "integrity_error E (session (set_brand i ?f d3)) = None"
      unfolding d3 by (rule integrity_set_brand) (simp_all add: c2)
    then have "try_commit E (set_brand i ?f d3) = Inr (commit (set_brand i ?f d3))"
      by (simp add: try_commit_Inr)
    with h Raises ue show ?thesis
      by (auto simp: handler_def)
  next
    case (Flush_fails e)
    with k show ?thesis by simp
  qed
qed

text \<open>
  Claim C2 does not hold of the code.  For a URL whose domain has no brand yet, \<open>brand\<close> is
  bound to a new \<open>Brand()\<close> whose \<open>name\<close> is not set, and the first commit raises
  \<open>IntegrityError\<close> (\<open>brands.name\<close> is \<open>nullable=False\<close>).  The handler assigns the status and
  commits without a rollback: this commit raises \<open>PendingRollbackError\<close>, which leaves
  \<open>analyze_brand\<close>.  No dictionary and no brand id are returned, and no brand row with the
  status \<open>failed\<close> is written.  The same happens with a brand row that exists before the
  call: two brands of one domain are in the table, the call for the URL of the second finds
  the first, assigns it that URL, and the first commit breaks the \<open>unique\<close> constraint on
  \<open>brands.website_url\<close>.
\<close>

theorem analyze_brand_raises:
  "analyze_brand 5 env_store ''https://shop.myshopify.com'' False empty_db 0 =
     Some (Inl (Exn PendingRollbackError
                  ''Original exception was: NOT NULL constraint failed: brands.name''),
           empty_db, []) \<and>
   find_brand twin_db ''shop.myshopify.com'' = Some (hd (brand_rows (session twin_db))) \<and>
   analyze_brand 5 env_store ''https://shop.myshopify.com/en'' False twin_db 0 =
     Some (Inl (Exn PendingRollbackError
                  ''Original exception was: UNIQUE constraint failed: brands.website_url''),
           twin_db, [])"
  by code_simp

subsection \<open>Running the analysis twice\<close>








end
